theory Spec2Isabelle
  imports Complex_Main "HOL-Library.Multiset"
begin

section \<open>Evolutionary training helpers (functions.py)\<close>

text \<open>
  A shallow embedding of the helper functions of \<^verbatim>\<open>src/functions.py\<close>:
  \<open>create_new_network\<close>, \<open>initialise_population\<close>, \<open>simulate_agent\<close>, \<open>de_crossover\<close>,
  \<open>mutationFunc_W_B\<close>, \<open>mutation_rate\<close>, \<open>average_weight_and_bias\<close> and
  \<open>de_crossover_classic\<close>. The two remaining functions, \<^verbatim>\<open>nnPerformance\<close> and
  \<^verbatim>\<open>save_frames_as_gif\<close>, only plot and write a file.
  Conventions of the model:
  \<^item> a Python or numpy float is a \<open>real\<close>: arithmetic is exact and there is no rounding;
    where numpy gives an infinity or NaN the model says so by a value of its own
    (\<open>py_float\<close> in \<open>mutation_rate\<close>, \<open>NanResult\<close> in \<open>find_mean\<close>);
  \<^item> an exception is a value \<open>Inl e\<close> of a sum type, a normal return is \<open>Inr v\<close>;
  \<^item> the memory of the numpy arrays is an explicit store, passed through every function
    that reads or writes arrays, so that views of one array are visible as such;
  \<^item> the random generators are part of the state: a draw reads the generator's sequence
    at its position and advances the position, and the theorems hold for every sequence.
\<close>

subsection \<open>Exceptions\<close>

text \<open>
  The exceptions the Python interpreter and numpy raise in the modelled functions.
  \<open>ConfigurationError\<close> is the error the specification names for an insufficient
  population size; no statement of the source raises it. \<open>NanResult\<close> is not an
  exception: it stands for a result that numpy reports as NaN (with a RuntimeWarning),
  for which the real numbers of the model have no value.
\<close>

datatype py_error = IndexError | ValueError | ZeroDivisionError | ConfigurationError | NanResult

subsection \<open>Dynamic mutation rate\<close>

text \<open>
  The arguments of \<open>mutation_rate\<close> are built-in numbers (\<^verbatim>\<open>int\<close>, \<^verbatim>\<open>float\<close>) or numpy
  scalars (\<^verbatim>\<open>np.float64\<close>, \<^verbatim>\<open>np.int64\<close>: what sums and maxima of numpy-valued rewards
  are). The kind decides what a zero divisor does. Between two built-in numbers,
  Python's true division raises ZeroDivisionError. As soon as one operand is a numpy
  scalar, numpy divides: it warns (RuntimeWarning), raises nothing and returns an
  infinity with the sign of the dividend, or NaN for a zero dividend. The zero of the
  model is \<^verbatim>\<open>0\<close> or \<^verbatim>\<open>0.0\<close>; the float \<^verbatim>\<open>-0.0\<close> as divisor gives the infinity of the
  opposite sign.
\<close>

datatype number = PyNum real | NpNum real

fun value_of :: "number \<Rightarrow> real" where
  "value_of (PyNum x) = x"
| "value_of (NpNum x) = x"

fun is_numpy :: "number \<Rightarrow> bool" where
  "is_numpy (PyNum x) = False"
| "is_numpy (NpNum x) = True"

datatype py_float = Finite real | PosInf | NegInf | NaN

definition truediv :: "number \<Rightarrow> number \<Rightarrow> py_error + py_float" where
  "truediv x y =
     (if value_of y \<noteq> 0 then Inr (Finite (value_of x / value_of y))
      else if is_numpy x \<or> is_numpy y
           then Inr (if 0 < value_of x then PosInf else if value_of x < 0 then NegInf else NaN)
           else Inl ZeroDivisionError)"

text \<open>\<^verbatim>\<open>1 - q\<close>, which never raises.\<close>

fun one_minus :: "py_float \<Rightarrow> py_float" where
  "one_minus (Finite q) = Finite (1 - q)"
| "one_minus PosInf = NegInf"
| "one_minus NegInf = PosInf"
| "one_minus NaN = NaN"

text \<open>
  \<^verbatim>\<open>
  def mutation_rate(score, goal):
      return(1 - (score/goal))
  \<close>
\<close>

definition mutation_rate :: "number \<Rightarrow> number \<Rightarrow> py_error + py_float" where
  "mutation_rate score goal =
     (case truediv score goal of Inl e \<Rightarrow> Inl e | Inr q \<Rightarrow> Inr (one_minus q))"

subsection \<open>Sequencing of calls that may raise\<close>

definition bnd :: "py_error + 'a \<Rightarrow> ('a \<Rightarrow> py_error + 'b) \<Rightarrow> py_error + 'b" where
  "bnd m f = (case m of Inl e \<Rightarrow> Inl e | Inr x \<Rightarrow> f x)"

text \<open>\<^verbatim>\<open>for x in xs: s = body(x, s)\<close>, left at the first exception.\<close>

fun for_err :: "'i list \<Rightarrow> ('i \<Rightarrow> 's \<Rightarrow> py_error + 's) \<Rightarrow> 's \<Rightarrow> py_error + 's" where
  "for_err [] body s = Inr s"
| "for_err (x # xs) body s = bnd (body x s) (for_err xs body)"

text \<open>\<^verbatim>\<open>xs[i]\<close> on a Python list, for an index that is not negative.\<close>

definition nth_err :: "'a list \<Rightarrow> nat \<Rightarrow> py_error + 'a" where
  "nth_err xs i = (if i < length xs then Inr (xs ! i) else Inl IndexError)"

subsection \<open>Arrays, agents and the store\<close>

text \<open>
  The weight matrices and bias vectors of an \<^verbatim>\<open>MLPClassifier\<close> are numpy arrays of
  \<^verbatim>\<open>float64\<close>: \<^verbatim>\<open>coefs_[i]\<close> has two dimensions, \<^verbatim>\<open>intercepts_[i]\<close> has one.
  Several array objects can share one block of memory (\<^verbatim>\<open>np.ravel\<close> and
  \<^verbatim>\<open>reshape\<close> of a C-contiguous array return views, and sklearn's parameter arrays,
  the results of numpy arithmetic and of \<^verbatim>\<open>np.mean\<close> are all C-contiguous), so the
  model keeps the memory in a store: a list of buffers addressed by position, each
  buffer holding the elements of an array in row-major order. An array object is the
  address of its buffer and its shape.
\<close>

type_synonym addr = nat

datatype shape = Shape1 nat | Shape2 nat nat

record ndarray =
  base :: addr
  shape :: shape

text \<open>
  The fields \<open>coefs\<close> and \<open>intercepts\<close> are the attributes \<^verbatim>\<open>coefs_\<close> and
  \<^verbatim>\<open>intercepts_\<close> of the classifier.
\<close>

record agent =
  coefs :: "ndarray list"
  intercepts :: "ndarray list"

text \<open>\<^verbatim>\<open>x.size\<close>, \<^verbatim>\<open>len(x)\<close>, and the number of scalars in one \<^verbatim>\<open>x[k]\<close>.\<close>

fun size_of :: "shape \<Rightarrow> nat" where
  "size_of (Shape1 n) = n"
| "size_of (Shape2 n m) = n * m"

fun len_of_shape :: "shape \<Rightarrow> nat" where
  "len_of_shape (Shape1 n) = n"
| "len_of_shape (Shape2 n m) = n"

fun row_width :: "shape \<Rightarrow> nat" where
  "row_width (Shape1 n) = 1"
| "row_width (Shape2 n m) = m"

text \<open>
  The state the functions run in: the store, and the two random generators the source
  uses, Python's \<^verbatim>\<open>random\<close> module and numpy's global \<^verbatim>\<open>np.random\<close>. A
  generator is an arbitrary sequence of draws and the position of the next one;
  \<open>py_real\<close> and \<open>py_nat\<close> give the draw at a position read as a float or as an
  integer, and likewise \<open>np_real\<close>, \<open>np_normal\<close> and \<open>np_nat\<close>.
\<close>

record world =
  heap :: "real list list"
  py_real :: "nat \<Rightarrow> real"
  py_nat :: "nat \<Rightarrow> nat"
  py_pos :: nat
  np_real :: "nat \<Rightarrow> real"
  np_normal :: "nat \<Rightarrow> real"
  np_nat :: "nat \<Rightarrow> nat"
  np_pos :: nat

text \<open>A new buffer is placed behind the ones in use; its address is its position.\<close>

definition alloc :: "real list \<Rightarrow> world \<Rightarrow> addr \<times> world" where
  "alloc buf w = (length (heap w), w\<lparr>heap := heap w @ [buf]\<rparr>)"

text \<open>\<^verbatim>\<open>np.ravel(x)\<close> for a contiguous array is the buffer of \<open>x\<close> itself.\<close>

definition ravel :: "world \<Rightarrow> ndarray \<Rightarrow> real list" where
  "ravel w x = heap w ! base x"

text \<open>An array object refers to a buffer in use that holds as many elements as its shape says.\<close>

definition valid_nd :: "world \<Rightarrow> ndarray \<Rightarrow> bool" where
  "valid_nd w x = (base x < length (heap w) \<and> length (heap w ! base x) = size_of (shape x))"

subsection \<open>Random draws\<close>

text \<open>
  \<^verbatim>\<open>random.random()\<close> and \<^verbatim>\<open>np.random.uniform()\<close> return a float in \<open>[0, 1)\<close>:
  the fractional part of the generator's draw. \<^verbatim>\<open>np.random.uniform(0, 1, n)\<close> returns
  \<open>n\<close> of them. \<^verbatim>\<open>np.random.normal(0, 2)\<close> returns any float.
  \<^verbatim>\<open>np.random.random_integers(0, high)\<close> returns an integer between 0 and \<open>high\<close>,
  both included. \<open>randbelow n\<close> is the integer below \<open>n\<close> that \<^verbatim>\<open>random.shuffle\<close>
  draws for each position.
\<close>

definition random_random :: "world \<Rightarrow> real \<times> world" where
  "random_random w = (frac (py_real w (py_pos w)), w\<lparr>py_pos := Suc (py_pos w)\<rparr>)"

definition randbelow :: "nat \<Rightarrow> world \<Rightarrow> nat \<times> world" where
  "randbelow n w = (py_nat w (py_pos w) mod n, w\<lparr>py_pos := Suc (py_pos w)\<rparr>)"

definition np_random_uniform :: "world \<Rightarrow> real \<times> world" where
  "np_random_uniform w = (frac (np_real w (np_pos w)), w\<lparr>np_pos := Suc (np_pos w)\<rparr>)"

definition np_random_uniform_n :: "nat \<Rightarrow> world \<Rightarrow> real list \<times> world" where
  "np_random_uniform_n n w =
     (map (\<lambda>k. frac (np_real w (np_pos w + k))) [0..<n], w\<lparr>np_pos := np_pos w + n\<rparr>)"

definition np_random_normal :: "world \<Rightarrow> real \<times> world" where
  "np_random_normal w = (np_normal w (np_pos w), w\<lparr>np_pos := Suc (np_pos w)\<rparr>)"

definition np_random_integers :: "nat \<Rightarrow> world \<Rightarrow> nat \<times> world" where
  "np_random_integers high w = (np_nat w (np_pos w) mod (high + 1), w\<lparr>np_pos := Suc (np_pos w)\<rparr>)"

subsection \<open>Element-wise arithmetic of one-dimensional arrays\<close>

text \<open>
  numpy combines two one-dimensional arrays element by element when their lengths agree,
  repeats the single element of an array of length 1, and raises ValueError otherwise.
\<close>

definition np_binop :: "(real \<Rightarrow> real \<Rightarrow> real) \<Rightarrow> real list \<Rightarrow> real list \<Rightarrow> py_error + real list" where
  "np_binop f xs ys =
     (if length xs = length ys then Inr (map2 f xs ys)
      else if length ys = 1 then Inr (map (\<lambda>x. f x (hd ys)) xs)
      else if length xs = 1 then Inr (map (\<lambda>y. f (hd xs) y) ys)
      else Inl ValueError)"

subsection \<open>Differential crossover of two parents\<close>

text \<open>
  \<^verbatim>\<open>
  shape = nn1.coefs_[i].shape
  coef1Flat = np.ravel(nn1.coefs_[i])
  coef2Flat = np.ravel(nn2.coefs_[i])
  newcoefs.append(
      np.array(
          coef1Flat + np.random.uniform(0, 1, len(coef1Flat)) * (coef2Flat-coef1Flat)
      ).reshape(shape))
  \<close>
  The source has this block twice in its loop body, for \<^verbatim>\<open>coefs_[i]\<close> and for
  \<^verbatim>\<open>intercepts_[i]\<close>; \<open>de_blend\<close> is the block for one pair of arrays. The sum is a
  new array, which \<^verbatim>\<open>np.array\<close> copies; \<^verbatim>\<open>reshape\<close> raises ValueError when the
  size does not fit the shape.
\<close>

definition de_blend :: "ndarray \<Rightarrow> ndarray \<Rightarrow> world \<Rightarrow> py_error + (ndarray \<times> world)" where
  "de_blend x1 x2 w =
     (let shp = shape x1;
          flat1 = ravel w x1;
          flat2 = ravel w x2;
          (us, w1) = np_random_uniform_n (length flat1) w
      in bnd (np_binop (-) flat2 flat1) (\<lambda>d.
         bnd (np_binop (*) us d) (\<lambda>p.
         bnd (np_binop (+) flat1 p) (\<lambda>s.
           if length s = size_of shp
           then (let (a, w2) = alloc s w1 in Inr (\<lparr>base = a, shape = shp\<rparr>, w2))
           else Inl ValueError))))"

definition de_crossover_layer ::
  "agent \<Rightarrow> agent \<Rightarrow> nat \<Rightarrow> ndarray list \<times> ndarray list \<times> world
     \<Rightarrow> py_error + (ndarray list \<times> ndarray list \<times> world)" where
  "de_crossover_layer nn1 nn2 i st =
     (case st of (newcoefs, newintercepts, w) \<Rightarrow>
        bnd (nth_err (coefs nn1) i) (\<lambda>c1.
        bnd (nth_err (coefs nn2) i) (\<lambda>c2.
        bnd (de_blend c1 c2 w) (\<lambda>(c, w1).
        bnd (nth_err (intercepts nn1) i) (\<lambda>b1.
        bnd (nth_err (intercepts nn2) i) (\<lambda>b2.
        bnd (de_blend b1 b2 w1) (\<lambda>(b, w2).
          Inr (newcoefs @ [c], newintercepts @ [b], w2))))))))"

text \<open>
  \<^verbatim>\<open>
  def de_crossover(nn1, nn2):
      newcoefs = []
      newintercepts = []
      for i in range(2):
          ...
      return newcoefs, newintercepts
  \<close>
\<close>

definition de_crossover ::
  "agent \<Rightarrow> agent \<Rightarrow> world \<Rightarrow> py_error + (ndarray list \<times> ndarray list \<times> world)" where
  "de_crossover nn1 nn2 w = for_err [0..<2] (de_crossover_layer nn1 nn2) ([], [], w)"

subsection \<open>Classic differential crossover\<close>

text \<open>The crossover probability and the differential weight of the source.\<close>

definition CR :: real where
  "CR = 9 / 10"

definition F :: real where
  "F = 8 / 10"

text \<open>
  \<^verbatim>\<open>
  for j in range(len(agentCoefFlat)):
      r = np.random.uniform()
      if r < CR or j == R:
          agentCoefFlat[j] = coef1Flat[j] + F * (coef2Flat[j] - coef3Flat[j])
  \<close>
  \<^verbatim>\<open>agentCoefFlat\<close> is \<^verbatim>\<open>np.ravel(agent.coefs_[i])\<close>, a view: the assignment
  writes into the buffer of the agent's own array, at address \<open>a\<close>. The three donors'
  flat views are the buffers at \<open>d1\<close>, \<open>d2\<close> and \<open>d3\<close>; reading one of them at an
  index beyond its length raises IndexError.
\<close>

definition de_classic_step :: "nat \<Rightarrow> addr \<Rightarrow> addr \<Rightarrow> addr \<Rightarrow> addr \<Rightarrow> nat \<Rightarrow> world \<Rightarrow> py_error + world" where
  "de_classic_step R a d1 d2 d3 j w =
     (let (r, w1) = np_random_uniform w
      in if r < CR \<or> j = R
         then bnd (nth_err (heap w1 ! d1) j) (\<lambda>v1.
              bnd (nth_err (heap w1 ! d2) j) (\<lambda>v2.
              bnd (nth_err (heap w1 ! d3) j) (\<lambda>v3.
                Inr (w1\<lparr>heap := (heap w1)[a := (heap w1 ! a)[j := v1 + F * (v2 - v3)]]\<rparr>))))
         else Inr w1)"

text \<open>
  \<^verbatim>\<open>
  shape = agent.coefs_[i].shape
  R = np.random.random_integers(0, len(agent.coefs_[i]))
  agentCoefFlat = np.ravel(agent.coefs_[i])
  coef1Flat = np.ravel(randomAgents[0].coefs_[i])
  coef2Flat = np.ravel(randomAgents[1].coefs_[i])
  coef3Flat = np.ravel(randomAgents[2].coefs_[i])
  for j in range(len(agentCoefFlat)): ...
  newcoefs.append(agentCoefFlat.reshape(shape))
  \<close>
  Again the block stands twice in the source, for the weights and for the biases;
  \<open>de_classic_tensor\<close> is the block for the target's array \<open>x\<close> and the donors'
  arrays \<open>y1\<close>, \<open>y2\<close>, \<open>y3\<close>. \<^verbatim>\<open>len\<close> of the unflattened array is the length of its
  first axis. The array appended is a view of the target's buffer.
\<close>

definition de_classic_tensor ::
  "ndarray \<Rightarrow> ndarray \<Rightarrow> ndarray \<Rightarrow> ndarray \<Rightarrow> world \<Rightarrow> py_error + (ndarray \<times> world)" where
  "de_classic_tensor x y1 y2 y3 w =
     (let shp = shape x;
          (R, w1) = np_random_integers (len_of_shape (shape x)) w
      in bnd (for_err [0..<length (ravel w1 x)]
                (de_classic_step R (base x) (base y1) (base y2) (base y3)) w1) (\<lambda>w2.
           Inr (\<lparr>base = base x, shape = shp\<rparr>, w2)))"

definition de_crossover_classic_layer ::
  "agent \<Rightarrow> agent list \<Rightarrow> nat \<Rightarrow> ndarray list \<times> ndarray list \<times> world
     \<Rightarrow> py_error + (ndarray list \<times> ndarray list \<times> world)" where
  "de_crossover_classic_layer agent randomAgents i st =
     (case st of (newcoefs, newintercepts, w) \<Rightarrow>
        bnd (nth_err (coefs agent) i) (\<lambda>x.
        bnd (nth_err randomAgents 0) (\<lambda>r0. bnd (nth_err (coefs r0) i) (\<lambda>y1.
        bnd (nth_err randomAgents 1) (\<lambda>r1. bnd (nth_err (coefs r1) i) (\<lambda>y2.
        bnd (nth_err randomAgents 2) (\<lambda>r2. bnd (nth_err (coefs r2) i) (\<lambda>y3.
        bnd (de_classic_tensor x y1 y2 y3 w) (\<lambda>(c, w1).
        bnd (nth_err (intercepts agent) i) (\<lambda>z.
        bnd (nth_err (intercepts r0) i) (\<lambda>z1.
        bnd (nth_err (intercepts r1) i) (\<lambda>z2.
        bnd (nth_err (intercepts r2) i) (\<lambda>z3.
        bnd (de_classic_tensor z z1 z2 z3 w1) (\<lambda>(b, w2).
          Inr (newcoefs @ [c], newintercepts @ [b], w2)))))))))))))))"

text \<open>
  \<^verbatim>\<open>
  def de_crossover_classic(agent, randomAgents):
      CR = 0.9
      F = 0.8
      newcoefs = []
      newintercepts = []
      for i in range(2):
          ...
      return newcoefs, newintercepts
  \<close>
\<close>

definition de_crossover_classic ::
  "agent \<Rightarrow> agent list \<Rightarrow> world \<Rightarrow> py_error + (ndarray list \<times> ndarray list \<times> world)" where
  "de_crossover_classic agent randomAgents w =
     for_err [0..<2] (de_crossover_classic_layer agent randomAgents) ([], [], w)"

subsection \<open>Mutation of an agent's weights and biases\<close>

text \<open>
  The elements of an array with two dimensions are its rows, those of an array with one
  dimension are its scalars; in both cases element \<open>k\<close> takes \<open>row_width\<close> places of the
  buffer, from place \<open>k * row_width\<close> on.
\<close>

definition read_row :: "nat \<Rightarrow> real list \<Rightarrow> nat \<Rightarrow> real list" where
  "read_row wd buf k = take wd (drop (k * wd) buf)"

definition write_row :: "nat \<Rightarrow> real list \<Rightarrow> nat \<Rightarrow> real list \<Rightarrow> real list" where
  "write_row wd buf k vals = take (k * wd) buf @ vals @ drop (Suc k * wd) buf"

text \<open>
  \<^verbatim>\<open>swappedRow, el[random1] = el[random1], swappedRow\<close>:
  the right-hand side is evaluated first; then the name \<^verbatim>\<open>swappedRow\<close> is rebound,
  which changes no array, and \<^verbatim>\<open>el[random1]\<close> is assigned the former
  \<^verbatim>\<open>swappedRow\<close>, the loop's element \<open>k\<close> (a view of row \<open>k\<close>, or the scalar read
  from place \<open>k\<close>), whose contents are copied to element \<open>random1\<close>.
\<close>

definition swap_row :: "ndarray \<Rightarrow> nat \<Rightarrow> nat \<Rightarrow> world \<Rightarrow> world" where
  "swap_row el k random1 w =
     (let wd = row_width (shape el); buf = heap w ! base el
      in w\<lparr>heap := (heap w)[base el := write_row wd buf random1 (read_row wd buf k)]\<rparr>)"

text \<open>
  \<^verbatim>\<open>random.shuffle(el[random1:random2])\<close>: the slice \<open>x\<close> is a view, and the
  library's loop is
  \<^verbatim>\<open>
  for i in reversed(range(1, len(x))):
      j = randbelow(i + 1)
      x[i], x[j] = x[j], x[i]
  \<close>
  On scalars the assignment exchanges the two places. On rows both right-hand sides are
  views: row \<open>i\<close> receives the contents of row \<open>j\<close>, and row \<open>j\<close> then receives the
  contents row \<open>i\<close> has by now, its own.
\<close>

definition shuffle_step :: "ndarray \<Rightarrow> nat \<Rightarrow> nat \<Rightarrow> world \<Rightarrow> world" where
  "shuffle_step el lo i w =
     (let (j, w1) = randbelow (i + 1) w;
          wd = row_width (shape el);
          buf = heap w1 ! base el
      in case shape el of
           Shape1 n \<Rightarrow>
             w1\<lparr>heap := (heap w1)[base el := buf[lo + i := buf ! (lo + j), lo + j := buf ! (lo + i)]]\<rparr>
         | Shape2 n m \<Rightarrow>
             w1\<lparr>heap := (heap w1)[base el := write_row wd buf (lo + i) (read_row wd buf (lo + j))]\<rparr>)"

definition shuffle_rows :: "ndarray \<Rightarrow> nat \<Rightarrow> nat \<Rightarrow> world \<Rightarrow> world" where
  "shuffle_rows el random1 random2 w = fold (shuffle_step el random1) (rev [1..<random2 - random1]) w"

text \<open>
  \<^verbatim>\<open>el[random1:random2] = el[random1:random2][::-1]\<close>: numpy copies the overlapping
  right-hand side before it assigns, so the elements of the range end up reversed.
\<close>

definition inverse_rows :: "ndarray \<Rightarrow> nat \<Rightarrow> nat \<Rightarrow> world \<Rightarrow> world" where
  "inverse_rows el random1 random2 w =
     (let wd = row_width (shape el); buf = heap w ! base el
      in w\<lparr>heap := (heap w)[base el :=
            take (random1 * wd) buf
            @ concat (rev (map (read_row wd buf) [random1..<random2]))
            @ drop (random2 * wd) buf]\<rparr>)"

text \<open>
  \<^verbatim>\<open>
  if method == 'gaussian':
      inner += np.random.normal(0, 2)
  elif method == 'uniform':
      inner = random.random()
  \<close>
  (and the same with \<^verbatim>\<open>swappedRow\<close> for \<^verbatim>\<open>inner\<close>). The variable holds a
  \<^verbatim>\<open>np.float64\<close>, an immutable scalar read from the array: both statements bind the
  name to a new value. \<open>perturb_scalar\<close> returns that value and the state after the draw.
\<close>

definition perturb_scalar :: "string \<Rightarrow> real \<Rightarrow> world \<Rightarrow> real \<times> world" where
  "perturb_scalar method v w =
     (if method = ''gaussian'' then (let (g, w1) = np_random_normal w in (v + g, w1))
      else if method = ''uniform'' then (let (u, w1) = random_random w in (u, w1))
      else (v, w))"

text \<open>
  \<^verbatim>\<open>
  if(type(swappedRow) == np.float64):
      ... swappedRow ...
  else:
      for inner in swappedRow:
          ... inner ...
  \<close>
  The element is a \<^verbatim>\<open>np.float64\<close> when the array has one dimension, and a row that
  the inner loop runs through when it has two. Nothing is stored back: the new value of
  the variable is dropped at the end of the iteration.
\<close>

definition perturb_row :: "string \<Rightarrow> ndarray \<Rightarrow> nat \<Rightarrow> world \<Rightarrow> world" where
  "perturb_row method el k w =
     (case shape el of
        Shape1 n \<Rightarrow> snd (perturb_scalar method (heap w ! base el ! k) w)
      | Shape2 n m \<Rightarrow>
          fold (\<lambda>c w'. snd (perturb_scalar method (heap w' ! base el ! (k * m + c)) w')) [0..<m] w)"

text \<open>
  \<^verbatim>\<open>
  if (random.random() < mutation_rate):
      random1 = int(random.random()*len(el))
      random2 = int(random.random()*len(el))
      if(random1 > random2):
          random2, random1 = random1, random2
      if(method == 'swap'): ...
      elif(method == 'scramble'): ...
      elif(method == 'inverse'): ...
      else: ...
  \<close>
  the body of \<^verbatim>\<open>for swappedRow in el\<close> at element \<open>k\<close>.
\<close>

definition mutate_row :: "real \<Rightarrow> string \<Rightarrow> ndarray \<Rightarrow> nat \<Rightarrow> world \<Rightarrow> world" where
  "mutate_row rate method el k w =
     (let (c, w1) = random_random w
      in if c < rate
         then (let n = len_of_shape (shape el);
                   (u1, w2) = random_random w1;
                   (u2, w3) = random_random w2;
                   r1 = nat \<lfloor>u1 * real n\<rfloor>;
                   r2 = nat \<lfloor>u2 * real n\<rfloor>;
                   random1 = (if r1 > r2 then r2 else r1);
                   random2 = (if r1 > r2 then r1 else r2)
               in if method = ''swap'' then swap_row el k random1 w3
                  else if method = ''scramble'' then shuffle_rows el random1 random2 w3
                  else if method = ''inverse'' then inverse_rows el random1 random2 w3
                  else perturb_row method el k w3)
         else w1)"

definition mutate_array :: "real \<Rightarrow> string \<Rightarrow> ndarray \<Rightarrow> world \<Rightarrow> world" where
  "mutate_array rate method el w = fold (mutate_row rate method el) [0..<len_of_shape (shape el)] w"

text \<open>
  \<^verbatim>\<open>
  def mutationFunc_W_B(agent, mutation_rate, method):
      for item in range(2):
          if item == 0:
              node_item = agent.coefs_
          else:
              node_item = agent.intercepts_
          for el in node_item:
              for swappedRow in el:
                  ...
      return agent
  \<close>
  The agent returned is the argument itself; what the call changes is the store and
  the generators.
\<close>

definition mutationFunc_W_B :: "agent \<Rightarrow> real \<Rightarrow> string \<Rightarrow> world \<Rightarrow> agent \<times> world" where
  "mutationFunc_W_B agent rate method w =
     (agent,
      fold (\<lambda>item w'. fold (mutate_array rate method)
                         (if item = 0 then coefs agent else intercepts agent) w')
        [0..<2] w)"

subsection \<open>Creating networks and populations\<close>

text \<open>
  \<^verbatim>\<open>
  def create_new_network(env):
      return MLPClassifier(batch_size=1, max_iter=1, solver='sgd', activation='relu',
          learning_rate='invscaling', hidden_layer_sizes=4, random_state=1
      ).partial_fit(np.array([env.observation_space.sample()]),
                    np.array([env.action_space.sample()]),
                    classes=np.arange(env.action_space.n))
  \<close>
  The body is one call into sklearn and the environment. The parameter \<open>fit\<close> stands for
  it: from the environment and the current state it gives the new classifier and the
  state after the call.
\<close>

definition create_new_network :: "('env \<Rightarrow> 'w \<Rightarrow> 'a \<times> 'w) \<Rightarrow> 'env \<Rightarrow> 'w \<Rightarrow> 'a \<times> 'w" where
  "create_new_network fit env w = fit env w"

text \<open>
  \<^verbatim>\<open>
  def initialise_population(size, env):
      population = []
      for _ in range(size):
          population.append(create_new_network(env))
      return population
  \<close>
  \<open>psize\<close> is the argument \<^verbatim>\<open>size\<close>; \<^verbatim>\<open>range(size)\<close> is empty when it is not
  positive. No statement of the function raises: every call returns.
\<close>

definition initialise_population ::
  "('env \<Rightarrow> 'w \<Rightarrow> 'a \<times> 'w) \<Rightarrow> int \<Rightarrow> 'env \<Rightarrow> 'w \<Rightarrow> py_error + ('a list \<times> 'w)" where
  "initialise_population fit psize env w =
     Inr (fold (\<lambda>_ (population, w').
                  let (a, w'') = create_new_network fit env w' in (population @ [a], w''))
            [0..<nat psize] ([], w))"

subsection \<open>Average network of a population\<close>

text \<open>
  \<^verbatim>\<open>
  def find_mean(mat, attr_type, i): return np.mean(
      np.array([getattr(el, attr_type)[i] for el in mat]),
      axis=0
  )
  \<close>
  \<open>attr\<close> is the attribute read by \<^verbatim>\<open>getattr\<close>. \<^verbatim>\<open>np.array\<close> stacks arrays of
  one shape and raises ValueError for arrays of different shapes; the mean along the
  first axis is, for every place, the sum over the stacked arrays divided by their
  number. The mean of an empty stack is NaN.
\<close>

definition find_mean ::
  "agent list \<Rightarrow> (agent \<Rightarrow> ndarray list) \<Rightarrow> nat \<Rightarrow> world \<Rightarrow> py_error + (ndarray \<times> world)" where
  "find_mean mat attr i w =
     bnd (for_err mat (\<lambda>el acc. bnd (nth_err (attr el) i) (\<lambda>x. Inr (acc @ [x]))) []) (\<lambda>xs.
       case xs of
         [] \<Rightarrow> Inl NanResult
       | x # _ \<Rightarrow>
           if list_all (\<lambda>y. shape y = shape x) xs
           then (let m = map (\<lambda>j. sum_list (map (\<lambda>y. ravel w y ! j) xs) / real (length xs))
                           [0..<size_of (shape x)];
                     (a, w1) = alloc m w
                 in Inr (\<lparr>base = a, shape = shape x\<rparr>, w1))
           else Inl ValueError)"

text \<open>
  \<^verbatim>\<open>
  def average_weight_and_bias(population, env):
      coef0 = find_mean(population, 'coefs_', 0)
      coef1 = find_mean(population, 'coefs_', 1)
      intercept0 = find_mean(population, 'intercepts_', 0)
      intercept1 = find_mean(population, 'intercepts_', 1)

      avg_network = create_new_network(env)
      avg_network.coefs_ = [coef0, coef1]
      avg_network.intercepts_ = [intercept0, intercept1]

      return avg_network
  \<close>
\<close>

definition average_weight_and_bias ::
  "('env \<Rightarrow> world \<Rightarrow> agent \<times> world) \<Rightarrow> agent list \<Rightarrow> 'env \<Rightarrow> world \<Rightarrow> py_error + (agent \<times> world)" where
  "average_weight_and_bias fit population env w =
     bnd (find_mean population coefs 0 w) (\<lambda>(coef0, w1).
     bnd (find_mean population coefs 1 w1) (\<lambda>(coef1, w2).
     bnd (find_mean population intercepts 0 w2) (\<lambda>(intercept0, w3).
     bnd (find_mean population intercepts 1 w3) (\<lambda>(intercept1, w4).
       let (avg_network, w5) = create_new_network fit env w4
       in Inr (avg_network\<lparr>coefs := [coef0, coef1], intercepts := [intercept0, intercept1]\<rparr>,
               w5)))))"

subsection \<open>Simulating an agent\<close>

text \<open>
  The environment is an OpenAI Gym object: \<^verbatim>\<open>reset()\<close> gives the first observation,
  \<^verbatim>\<open>step(action)\<close> gives the next observation, the reward and the flag \<^verbatim>\<open>done\<close>,
  \<^verbatim>\<open>render(mode="rgb_array")\<close> gives a frame. Each acts on the environment's own
  state \<open>'s\<close>.
\<close>

record ('s, 'o, 'f) environment =
  env_reset :: "'s \<Rightarrow> 'o \<times> 's"
  env_step :: "int \<Rightarrow> 's \<Rightarrow> ('o \<times> real \<times> bool) \<times> 's"
  env_render :: "'s \<Rightarrow> 'f"

text \<open>
  \<^verbatim>\<open>
  while not done:
      action = int(agent.predict(observation.reshape(1, -1)))
      observation, reward, done, _ = env.step(action)
      score += reward
      if savetofile:
          frames.append(env.render(mode="rgb_array"))
      if render:
          env.render()
  \<close>
  \<open>predict\<close> is the agent's \<^verbatim>\<open>int(agent.predict(...))\<close>. The loop need not end, so
  it is a partial function: \<open>None\<close> when the environment never reports \<^verbatim>\<open>done\<close>.
  \<^verbatim>\<open>env.render()\<close> only displays the state; the display is not part of the model.
\<close>

partial_function (option) simulate_loop ::
  "('o \<Rightarrow> int) \<Rightarrow> ('s, 'o, 'f) environment \<Rightarrow> bool \<Rightarrow> 'o \<Rightarrow> real \<Rightarrow> bool \<Rightarrow> 'f list \<Rightarrow> 's
     \<Rightarrow> (real \<times> 'f list \<times> 's) option" where
  "simulate_loop predict env savetofile observation score done frames s =
     (if done then Some (score, frames, s)
      else (let action = predict observation;
                ((observation', reward, done'), s') = env_step env action s;
                score' = score + reward;
                frames' = (if savetofile then frames @ [env_render env s'] else frames)
            in simulate_loop predict env savetofile observation' score' done' frames' s'))"

text \<open>
  \<^verbatim>\<open>
  def simulate_agent(agent, env, render=False, savetofile=False, filename=None):
      observation = env.reset()
      score = 0
      done = False
      frames = []
      while not done: ...
      if savetofile:
          save_frames_as_gif(frames, path='./gifs/', filename=filename)
      return score
  \<close>
  The result is the score, together with the frames handed to
  \<^verbatim>\<open>save_frames_as_gif\<close> (none unless \<^verbatim>\<open>savetofile\<close>) and the environment's
  state after the rollout.
\<close>

definition simulate_agent ::
  "('o \<Rightarrow> int) \<Rightarrow> ('s, 'o, 'f) environment \<Rightarrow> bool \<Rightarrow> 's \<Rightarrow> (real \<times> 'f list \<times> 's) option" where
  "simulate_agent predict env savetofile s =
     (let (observation, s0) = env_reset env s
      in simulate_loop predict env savetofile observation 0 False [] s0)"

text \<open>
  The rollout as a sequence, for stating what the loop computes: \<open>rollout predict env k
  observation s\<close> is what the call of \<^verbatim>\<open>env.step\<close> number \<open>k\<close> (from 0) returns when
  the agent acts on each observation in turn, starting from \<open>observation\<close> in state \<open>s\<close>.
\<close>

fun rollout ::
  "('o \<Rightarrow> int) \<Rightarrow> ('s, 'o, 'f) environment \<Rightarrow> nat \<Rightarrow> 'o \<Rightarrow> 's \<Rightarrow> ('o \<times> real \<times> bool) \<times> 's" where
  "rollout predict env 0 observation s = env_step env (predict observation) s"
| "rollout predict env (Suc k) observation s =
     (case env_step env (predict observation) s of
        ((observation', reward, done), s') \<Rightarrow> rollout predict env k observation' s')"

definition reward_at :: "('o \<Rightarrow> int) \<Rightarrow> ('s, 'o, 'f) environment \<Rightarrow> 'o \<Rightarrow> 's \<Rightarrow> nat \<Rightarrow> real" where
  "reward_at predict env observation s k = fst (snd (fst (rollout predict env k observation s)))"

definition done_at :: "('o \<Rightarrow> int) \<Rightarrow> ('s, 'o, 'f) environment \<Rightarrow> 'o \<Rightarrow> 's \<Rightarrow> nat \<Rightarrow> bool" where
  "done_at predict env observation s k = snd (snd (fst (rollout predict env k observation s)))"

subsection \<open>Well-formed agents\<close>

text \<open>
  The classifiers of this program have one hidden layer: two weight matrices and two
  bias vectors, each array referring to a buffer of the size of its shape. Two agents
  have the same topology when their arrays have the same shapes. \<open>bases\<close> lists the
  buffers an agent's arrays refer to.
\<close>

definition valid_agent :: "world \<Rightarrow> agent \<Rightarrow> bool" where
  "valid_agent w a =
     (length (coefs a) = 2 \<and> length (intercepts a) = 2
      \<and> list_all (valid_nd w) (coefs a) \<and> list_all (valid_nd w) (intercepts a))"

definition same_topology :: "agent \<Rightarrow> agent \<Rightarrow> bool" where
  "same_topology a b =
     (map shape (coefs a) = map shape (coefs b) \<and> map shape (intercepts a) = map shape (intercepts b))"

definition bases :: "agent \<Rightarrow> addr list" where
  "bases a = map base (coefs a) @ map base (intercepts a)"

subsection \<open>The values the crossovers compute\<close>

text \<open>
  For stating what the two crossovers store. \<open>blend_buf w p x1 x2\<close> is the flat array
  \<^verbatim>\<open>a + u * (b - a)\<close> of \<open>de_crossover\<close> for the parents' arrays \<open>x1\<close> and \<open>x2\<close>, with
  the uniform draws taken from position \<open>p\<close> on.
\<close>

definition blend_buf :: "world \<Rightarrow> nat \<Rightarrow> ndarray \<Rightarrow> ndarray \<Rightarrow> real list" where
  "blend_buf w p x1 x2 =
     map (\<lambda>j. ravel w x1 ! j + frac (np_real w (p + j)) * (ravel w x2 ! j - ravel w x1 ! j))
       [0..<size_of (shape x1)]"

text \<open>
  \<open>np_uniform_at w p\<close> is the value a uniform draw of numpy returns when the generator
  stands at position \<open>p\<close>. \<open>uniform_coef_pos\<close> and \<open>uniform_intercept_pos\<close> are the
  positions at which \<open>de_crossover\<close> draws for the first element of \<^verbatim>\<open>coefs_[i]\<close> and of
  \<^verbatim>\<open>intercepts_[i]\<close>: every array before has taken one draw for each of its elements,
  and element \<open>j\<close> of an array takes the draw \<open>j\<close> positions further on.
\<close>

definition np_uniform_at :: "world \<Rightarrow> nat \<Rightarrow> real" where
  "np_uniform_at w p = frac (np_real w p)"

definition uniform_coef_pos :: "world \<Rightarrow> agent \<Rightarrow> nat \<Rightarrow> nat" where
  "uniform_coef_pos w nn1 i =
     np_pos w + (\<Sum>k<i. size_of (shape (coefs nn1 ! k)) + size_of (shape (intercepts nn1 ! k)))"

definition uniform_intercept_pos :: "world \<Rightarrow> agent \<Rightarrow> nat \<Rightarrow> nat" where
  "uniform_intercept_pos w nn1 i = uniform_coef_pos w nn1 i + size_of (shape (coefs nn1 ! i))"

text \<open>
  \<open>classic_buf w p R a d1 d2 d3 m\<close> is the target's buffer at \<open>a\<close> after the first \<open>m\<close>
  iterations of the loop of \<open>de_crossover_classic\<close>, for the forced index \<open>R\<close> and the
  uniform draws from position \<open>p\<close> on; \<open>tensor_new\<close> is the buffer after the whole block
  for one array, whose first draw, at position \<open>p\<close>, is the one for \<open>R\<close>.
\<close>

definition classic_buf :: "world \<Rightarrow> nat \<Rightarrow> nat \<Rightarrow> addr \<Rightarrow> addr \<Rightarrow> addr \<Rightarrow> addr \<Rightarrow> nat \<Rightarrow> real list" where
  "classic_buf w p R a d1 d2 d3 m =
     map (\<lambda>j. if j < m \<and> (frac (np_real w (p + j)) < CR \<or> j = R)
               then heap w ! d1 ! j + F * (heap w ! d2 ! j - heap w ! d3 ! j)
               else heap w ! a ! j)
       [0..<length (heap w ! a)]"

definition tensor_new :: "world \<Rightarrow> nat \<Rightarrow> ndarray \<Rightarrow> ndarray \<Rightarrow> ndarray \<Rightarrow> ndarray \<Rightarrow> real list" where
  "tensor_new w p x y1 y2 y3 =
     classic_buf w (Suc p) (np_nat w p mod (len_of_shape (shape x) + 1))
       (base x) (base y1) (base y2) (base y3) (size_of (shape x))"

text \<open>
  \<open>mean_buf w xs\<close> is the flat array of the means, place by place, of the arrays \<open>xs\<close>.
\<close>

definition mean_buf :: "world \<Rightarrow> ndarray list \<Rightarrow> real list" where
  "mean_buf w xs =
     map (\<lambda>j. sum_list (map (\<lambda>y. ravel w y ! j) xs) / real (length xs))
       [0..<size_of (shape (hd xs))]"

text \<open>
  The positions of numpy's generator at which \<open>de_crossover_classic\<close> draws \<open>R\<close> for
  \<^verbatim>\<open>coefs_[i]\<close> and for \<^verbatim>\<open>intercepts_[i]\<close> (every layer before takes two draws for its
  two \<open>R\<close> and one draw for each element), and the index \<open>R\<close> drawn at a position for
  an array.
\<close>

definition coef_pos :: "world \<Rightarrow> agent \<Rightarrow> nat \<Rightarrow> nat" where
  "coef_pos w agent i =
     np_pos w + (\<Sum>k<i. 2 + size_of (shape (coefs agent ! k)) + size_of (shape (intercepts agent ! k)))"

definition intercept_pos :: "world \<Rightarrow> agent \<Rightarrow> nat \<Rightarrow> nat" where
  "intercept_pos w agent i = coef_pos w agent i + 1 + size_of (shape (coefs agent ! i))"

definition drawn_R :: "world \<Rightarrow> nat \<Rightarrow> ndarray \<Rightarrow> nat" where
  "drawn_R w p x = np_nat w p mod (len_of_shape (shape x) + 1)"

subsection \<open>Example inputs\<close>

text \<open>
  A stand-in for the library call of \<open>create_new_network\<close>: the state is a counter of
  the calls made, and the classifier returned is the number of the call.
\<close>

definition counting_fit :: "unit \<Rightarrow> nat \<Rightarrow> nat \<times> nat" where
  "counting_fit env w = (w, Suc w)"

text \<open>
  A deterministic environment whose state is the number of steps taken: every step
  gives reward 1, and the fifth step reports \<^verbatim>\<open>done\<close>. The agent always answers 0.
\<close>

definition stub_env :: "(nat, unit, unit) environment" where
  "stub_env = \<lparr>env_reset = (\<lambda>s. ((), 0)),
               env_step = (\<lambda>action s. (((), 1, 5 \<le> Suc s), Suc s)),
               env_render = (\<lambda>s. ())\<rparr>"

definition stub_agent :: "unit \<Rightarrow> int" where
  "stub_agent observation = 0"

text \<open>
  The four arrays of a classifier for a one-dimensional observation, four hidden units
  and one output unit, in the buffers \<open>a\<close> to \<open>a + 3\<close>; a state with the store \<open>h\<close> in
  which every \<^verbatim>\<open>random.random()\<close> gives 0.75, every uniform draw of numpy gives \<open>u\<close>,
  every normal draw gives 1 and every integer draw gives 0; and two fillings of the four
  buffers of such a classifier.
\<close>

definition ex_agent :: "addr \<Rightarrow> agent" where
  "ex_agent a =
     \<lparr>coefs = [\<lparr>base = a, shape = Shape2 1 4\<rparr>, \<lparr>base = a + 1, shape = Shape2 4 1\<rparr>],
      intercepts = [\<lparr>base = a + 2, shape = Shape1 4\<rparr>, \<lparr>base = a + 3, shape = Shape1 1\<rparr>]\<rparr>"

definition ex_world :: "real \<Rightarrow> real list list \<Rightarrow> world" where
  "ex_world u h =
     \<lparr>heap = h, py_real = (\<lambda>k. 3 / 4), py_nat = (\<lambda>k. 0), py_pos = 0,
      np_real = (\<lambda>k. u), np_normal = (\<lambda>k. 1), np_nat = (\<lambda>k. 0), np_pos = 0\<rparr>"

definition ex_bufs :: "real \<Rightarrow> real list list" where
  "ex_bufs v = [[v, v, v, v], [v, v, v, v], [v, v, v, v], [v]]"

definition ex_count :: "real list list" where
  "ex_count = [[1, 2, 3, 4], [5, 6, 7, 8], [9, 10, 11, 12], [13]]"

text \<open>
  A state with the store \<open>h\<close> in which the uniform draw of numpy at position \<open>k\<close> is
  \<open>k / 16\<close>: a different value for each of the first sixteen draws.
\<close>

definition ex_ramp :: "real list list \<Rightarrow> world" where
  "ex_ramp h = (ex_world 0 h)\<lparr>np_real := (\<lambda>k. real k / 16)\<rparr>"

text \<open>
  A stand-in for the library call of \<open>create_new_network\<close> that allocates the four
  arrays of a new classifier, filled with 0, behind the store.
\<close>

definition ex_fit :: "unit \<Rightarrow> world \<Rightarrow> agent \<times> world" where
  "ex_fit env w = (ex_agent (length (heap w)), w\<lparr>heap := heap w @ ex_bufs 0\<rparr>)"

section \<open>Properties\<close>

subsection \<open>mutation\_rate\<close>

lemma mutation_rate_value:
  "value_of goal \<noteq> 0 \<Longrightarrow>
   mutation_rate score goal = Inr (Finite (1 - value_of score / value_of goal))"
  by (simp add: mutation_rate_def truediv_def)

text \<open>
  Claim C5, as stated, says that for every goal different from zero the rate is negative
  once the score exceeds the goal. With a negative goal this fails: the score 0 exceeds
  the goal -1 and the rate is 1.
\<close>

theorem mutation_rate_negative_goal_counterexample:
  "value_of (PyNum (-1)) \<noteq> 0 \<and> value_of (PyNum 0) > value_of (PyNum (-1))
   \<and> mutation_rate (PyNum 0) (PyNum (-1)) = Inr (Finite 1) \<and> \<not> (1::real) < 0"
  by (simp add: mutation_rate_def truediv_def)

text \<open>
  Claim C5 (amended): for every score and every goal different from zero, of either
  kind of number, \<open>mutation_rate score goal\<close> returns exactly \<open>1 - score / goal\<close>, with no
  clamping; it is 0 when the score equals the goal and 1 when the score is 0; and when
  the goal is positive it is negative once the score exceeds the goal.
\<close>

theorem mutation_rate_unclamped:
  "\<lbrakk>value_of goal \<noteq> 0; value_of zero = 0\<rbrakk> \<Longrightarrow>
     mutation_rate score goal = Inr (Finite (1 - value_of score / value_of goal))
     \<and> mutation_rate goal goal = Inr (Finite 0)
     \<and> mutation_rate zero goal = Inr (Finite 1)
     \<and> (0 < value_of goal \<and> value_of goal < value_of score
          \<longrightarrow> 1 - value_of score / value_of goal < 0)"
  by (simp add: mutation_rate_def truediv_def)

theorem mutation_rate_unclamped_witness:
  "value_of (PyNum 200) \<noteq> 0 \<and> value_of (NpNum 0) = 0
   \<and> mutation_rate (NpNum 250) (PyNum 200) = Inr (Finite (1 - 250 / 200))
   \<and> mutation_rate (PyNum 200) (PyNum 200) = Inr (Finite 0)
   \<and> mutation_rate (NpNum 0) (PyNum 200) = Inr (Finite 1)
   \<and> 0 < value_of (PyNum 200) \<and> value_of (PyNum 200) < value_of (NpNum 250)
   \<and> 1 - 250 / 200 < (0::real)"
  using mutation_rate_unclamped [of "PyNum 200" "NpNum 0" "NpNum 250"] by simp




subsection \<open>initialise\_population\<close>

lemma populate_fold:
  "fold (\<lambda>_ (population, w'). let (a, w'') = mk w' in (population @ [a], w'')) [0..<n] (pop0, w)
   = (pop0 @ map (\<lambda>k. fst (mk (((\<lambda>v. snd (mk v)) ^^ k) w))) [0..<n], ((\<lambda>v. snd (mk v)) ^^ n) w)"
proof (induction n)
  case 0
  then show ?case by simp
next
  case (Suc n)
  then show ?case by (simp add: case_prod_unfold Let_def)
qed

text \<open>
  Claim C9, as stated, says that a size below 2 makes the call fail with
  ConfigurationError. The function has no check of the size: with size 1 it returns a
  population of one agent.
\<close>

theorem initialise_population_undersized_counterexample:
  "(1::int) < 2 \<and> initialise_population counting_fit 1 () 0 = Inr ([0], 1)
   \<and> initialise_population counting_fit 1 () 0 \<noteq> Inl ConfigurationError"
  by (simp add: initialise_population_def counting_fit_def create_new_network_def)

text \<open>
  Claim C9 (amended): for every size and environment, \<open>initialise_population\<close> returns
  normally, whatever the size. The population holds exactly \<open>size\<close> agents (none when the
  size is negative), in the order of their creation: agent \<open>k\<close> is the result of the call
  of \<open>create_new_network\<close> number \<open>k\<close>, made in the state the \<open>k\<close> earlier calls left,
  and the state returned is the one after exactly \<open>size\<close> calls.
\<close>

theorem initialise_population_calls:
  "\<exists>population w'. initialise_population fit psize env w = Inr (population, w')
     \<and> length population = nat psize
     \<and> population = map (\<lambda>k. fst (create_new_network fit env
                           (((\<lambda>v. snd (create_new_network fit env v)) ^^ k) w))) [0..<nat psize]
     \<and> w' = ((\<lambda>v. snd (create_new_network fit env v)) ^^ nat psize) w"
  unfolding initialise_population_def
  by (simp add: populate_fold [where ?pop0.0 = "[]", simplified])

theorem initialise_population_calls_witness:
  "initialise_population counting_fit 3 () 0 = Inr ([0, 1, 2], 3)"
  using initialise_population_calls [of counting_fit 3 "()" 0]
  by (simp add: initialise_population_def counting_fit_def create_new_network_def upt_rec)

subsection \<open>simulate\_agent\<close>

lemma simulate_loop_done:
  "simulate_loop predict env sv obs score True frames s = Some (score, frames, s)"
  by (subst simulate_loop.simps) simp

text \<open>
  If the call of \<^verbatim>\<open>env.step\<close> number \<open>n\<close> is the first to report \<^verbatim>\<open>done\<close>, the loop
  ends after it with the rewards of the calls 0 to \<open>n\<close> added to the score.
\<close>

lemma simulate_loop_run:
  "\<lbrakk>\<forall>k<n. \<not> done_at predict env obs s k; done_at predict env obs s n\<rbrakk> \<Longrightarrow>
   simulate_loop predict env sv obs score False frames s
     = Some (score + (\<Sum>k\<le>n. reward_at predict env obs s k),
             frames @ (if sv then map (\<lambda>k. env_render env (snd (rollout predict env k obs s))) [0..<Suc n]
                       else []),
             snd (rollout predict env n obs s))"
proof (induction n arbitrary: obs s score frames)
  case 0
  obtain obs' r d s' where st: "env_step env (predict obs) s = ((obs', r, d), s')"
    by (metis prod_cases3 surj_pair)
  with "0.prems" have d: "d" by (simp add: done_at_def)
  show ?case
    by (subst simulate_loop.simps) (simp add: st d reward_at_def simulate_loop_done)
next
  case (Suc n)
  obtain obs' r d s' where st: "env_step env (predict obs) s = ((obs', r, d), s')"
    by (metis prod_cases3 surj_pair)
  from Suc.prems(1) have "\<not> done_at predict env obs s 0" by simp
  then have nd: "\<not> d" using st by (simp add: done_at_def)
  have 1: "\<forall>k<n. \<not> done_at predict env obs' s' k"
  proof (intro allI impI)
    fix k assume "k < n"
    then have "\<not> done_at predict env obs s (Suc k)" using Suc.prems(1) by simp
    then show "\<not> done_at predict env obs' s' k" using st by (simp add: done_at_def)
  qed
  have 2: "done_at predict env obs' s' n"
    using Suc.prems(2) st by (simp add: done_at_def)
  have rw: "reward_at predict env obs s (Suc k) = reward_at predict env obs' s' k" for k
    using st by (simp add: reward_at_def)
  have ro: "rollout predict env (Suc k) obs s = rollout predict env k obs' s'" for k
    using st by simp
  have r0: "reward_at predict env obs s 0 = r" using st by (simp add: reward_at_def)
  have sum: "(\<Sum>k\<le>Suc n. reward_at predict env obs s k) = r + (\<Sum>k\<le>n. reward_at predict env obs' s' k)"
    by (simp add: sum.atMost_Suc_shift rw r0 del: sum.atMost_Suc)
  have fr: "map (\<lambda>k. env_render env (snd (rollout predict env k obs s))) [0..<Suc (Suc n)]
        = env_render env s' # map (\<lambda>k. env_render env (snd (rollout predict env k obs' s'))) [0..<Suc n]"
  proof -
    have z: "snd (rollout predict env 0 obs s) = s'" using st by simp
    show ?thesis
      by (subst map_upt_Suc) (simp add: z ro del: upt_Suc rollout.simps)
  qed
  show ?case
    apply (subst simulate_loop.simps)
    apply (simp only: st nd Let_def prod.case if_False Suc.IH [OF 1 2] sum fr ro)
    apply simp
    done
qed

text \<open>
  Claim C6: \<open>simulate_agent\<close> steps the environment until a step reports \<^verbatim>\<open>done\<close> and
  returns the sum of the rewards of the steps taken. If call number \<open>n\<close> of
  \<^verbatim>\<open>env.step\<close> is the first to report \<^verbatim>\<open>done\<close>, the function returns, the score is
  the sum of the rewards of the calls 0 to \<open>n\<close>, and the environment is left in the state
  after call \<open>n\<close>: no further step is taken. Against the environment that gives reward 1
  at every step and reports \<^verbatim>\<open>done\<close> at the fifth, the score is 5 (the witness).
\<close>

theorem simulate_agent_score:
  "\<lbrakk>env_reset env s = (observation, s0);
    \<forall>k<n. \<not> done_at predict env observation s0 k;
    done_at predict env observation s0 n\<rbrakk> \<Longrightarrow>
   simulate_agent predict env savetofile s
     = Some (\<Sum>k\<le>n. reward_at predict env observation s0 k,
             if savetofile
             then map (\<lambda>k. env_render env (snd (rollout predict env k observation s0))) [0..<Suc n]
             else [],
             snd (rollout predict env n observation s0))"
  unfolding simulate_agent_def
  by (simp add: simulate_loop_run del: upt_Suc)

theorem simulate_agent_score_witness:
  "env_reset stub_env 0 = ((), 0)
   \<and> \<not> done_at stub_agent stub_env () 0 0 \<and> \<not> done_at stub_agent stub_env () 0 1
   \<and> \<not> done_at stub_agent stub_env () 0 2 \<and> \<not> done_at stub_agent stub_env () 0 3
   \<and> done_at stub_agent stub_env () 0 4
   \<and> reward_at stub_agent stub_env () 0 0 = 1 \<and> reward_at stub_agent stub_env () 0 4 = 1
   \<and> simulate_agent stub_agent stub_env False 0 = Some (5, [], 5)"
proof -
  have r: "env_reset stub_env 0 = ((), 0)" by (simp add: stub_env_def)
  have ro: "rollout stub_agent stub_env k () s = (((), 1, 5 \<le> Suc (s + k)), Suc (s + k))" for k s
    by (induction k arbitrary: s) (simp_all add: stub_env_def)
  have nd: "\<forall>k<4. \<not> done_at stub_agent stub_env () 0 k"
    by (simp add: done_at_def ro)
  have d: "done_at stub_agent stub_env () 0 4"
    by (simp add: done_at_def ro)
  have rw: "reward_at stub_agent stub_env () 0 k = 1" for k
    by (simp add: reward_at_def ro)
  show ?thesis
    using simulate_agent_score [OF r nd d, of False] nd d
    by (simp add: rw ro r)
qed

subsection \<open>Sequencing, stores and well-formed agents\<close>

lemma bnd_simps [simp]: "bnd (Inr x) f = f x" "bnd (Inl e) f = Inl e"
  by (simp_all add: bnd_def)

lemma for_err_append: "for_err (xs @ ys) body s = bnd (for_err xs body s) (for_err ys body)"
  by (induction xs arbitrary: s) (simp_all add: bnd_def split: sum.splits)

lemma np_binop_same: "length xs = length ys \<Longrightarrow> np_binop f xs ys = Inr (map2 f xs ys)"
  by (simp add: np_binop_def)

lemma list2_nth: "length xs = 2 \<Longrightarrow> xs = [xs ! 0, xs ! 1]"
  by (cases xs; cases "tl xs") auto

lemma all_less_2: "(\<forall>i<2. P i) = (P 0 \<and> P (1::nat))"
  by (auto simp: less_2_cases_iff)


lemma store_read:
  "\<lbrakk>a < length h; d < length h; B ! m = h ! a ! m\<rbrakk> \<Longrightarrow> h[a := B] ! d ! m = h ! d ! m"
  by (cases "d = a") simp_all

lemma store_len:
  "\<lbrakk>a < length h; d < length h; length B = length (h ! a)\<rbrakk>
   \<Longrightarrow> length (h[a := B] ! d) = length (h ! d)"
  by (cases "d = a") simp_all


lemma valid_nd_ext: "valid_nd w x \<Longrightarrow> heap w' = heap w @ ext \<Longrightarrow> valid_nd w' x"
  by (simp add: valid_nd_def nth_append)

lemma ravel_ext: "valid_nd w x \<Longrightarrow> heap w' = heap w @ ext \<Longrightarrow> ravel w' x = ravel w x"
  by (simp add: valid_nd_def ravel_def nth_append)

lemma valid_agent_ext: "valid_agent w a \<Longrightarrow> heap w' = heap w @ ext \<Longrightarrow> valid_agent w' a"
  unfolding valid_agent_def list_all_iff
  using valid_nd_ext by blast

lemma valid_agent_nth:
  "valid_agent w a \<Longrightarrow> i < 2 \<Longrightarrow> valid_nd w (coefs a ! i) \<and> valid_nd w (intercepts a ! i)"
  by (simp add: valid_agent_def list_all_length)

lemma same_topology_nth:
  "\<lbrakk>same_topology a b; valid_agent w a; valid_agent w' b; i < 2\<rbrakk>
   \<Longrightarrow> shape (coefs b ! i) = shape (coefs a ! i) \<and> shape (intercepts b ! i) = shape (intercepts a ! i)"
  unfolding same_topology_def valid_agent_def
  by (metis nth_map)


lemma valid_nd_sizes:
  "\<lbrakk>valid_nd w x; length (heap w') = length (heap w);
    \<forall>k<length (heap w). length (heap w' ! k) = length (heap w ! k)\<rbrakk> \<Longrightarrow> valid_nd w' x"
  by (simp add: valid_nd_def)

lemma valid_agent_sizes:
  "\<lbrakk>valid_agent w a; length (heap w') = length (heap w);
    \<forall>k<length (heap w). length (heap w' ! k) = length (heap w ! k)\<rbrakk> \<Longrightarrow> valid_agent w' a"
  unfolding valid_agent_def list_all_iff
  using valid_nd_sizes by blast

lemma nth_mem_bases:
  "valid_agent w a \<Longrightarrow> i < 2 \<Longrightarrow>
   base (coefs a ! i) \<in> set (bases a) \<and> base (intercepts a ! i) \<in> set (bases a)"
  by (simp add: valid_agent_def bases_def)

lemma bases_distinct:
  assumes "valid_agent w a" "distinct (bases a)"
  shows "base (coefs a ! 0) \<noteq> base (coefs a ! 1)" "base (coefs a ! 0) \<noteq> base (intercepts a ! 0)"
    "base (coefs a ! 0) \<noteq> base (intercepts a ! 1)" "base (coefs a ! 1) \<noteq> base (intercepts a ! 0)"
    "base (coefs a ! 1) \<noteq> base (intercepts a ! 1)" "base (intercepts a ! 0) \<noteq> base (intercepts a ! 1)"
proof -
  have c: "coefs a = [coefs a ! 0, coefs a ! 1]" and b: "intercepts a = [intercepts a ! 0, intercepts a ! 1]"
    using assms(1) list2_nth [of "coefs a"] list2_nth [of "intercepts a"]
    by (simp_all add: valid_agent_def)
  have "distinct (map base [coefs a ! 0, coefs a ! 1] @ map base [intercepts a ! 0, intercepts a ! 1])"
    using assms(2) unfolding bases_def by (subst (asm) c, subst (asm) b)
  then show "base (coefs a ! 0) \<noteq> base (coefs a ! 1)" "base (coefs a ! 0) \<noteq> base (intercepts a ! 0)"
    "base (coefs a ! 0) \<noteq> base (intercepts a ! 1)" "base (coefs a ! 1) \<noteq> base (intercepts a ! 0)"
    "base (coefs a ! 1) \<noteq> base (intercepts a ! 1)" "base (intercepts a ! 0) \<noteq> base (intercepts a ! 1)"
    by auto
qed

lemma bases_disjoint:
  assumes "valid_agent w a" "valid_agent w r" "set (bases a) \<inter> set (bases r) = {}" "i < 2" "k < 2"
  shows "base (coefs a ! i) \<noteq> base (coefs r ! k)" "base (coefs a ! i) \<noteq> base (intercepts r ! k)"
    "base (intercepts a ! i) \<noteq> base (coefs r ! k)" "base (intercepts a ! i) \<noteq> base (intercepts r ! k)"
    "base (coefs a ! i) \<notin> set (bases r)" "base (intercepts a ! i) \<notin> set (bases r)"
  using nth_mem_bases [OF assms(1,4)] nth_mem_bases [OF assms(2,5)] assms(3) by auto


subsection \<open>de\_crossover\<close>

lemma de_blend_result:
  assumes "valid_nd w x1" "valid_nd w x2" "shape x2 = shape x1"
  shows "de_blend x1 x2 w =
           Inr (\<lparr>base = length (heap w), shape = shape x1\<rparr>,
                w\<lparr>heap := heap w @ [blend_buf w (np_pos w) x1 x2],
                  np_pos := np_pos w + size_of (shape x1)\<rparr>)"
proof -
  let ?n = "size_of (shape x1)"
  let ?f1 = "ravel w x1" and ?f2 = "ravel w x2"
  let ?us = "map (\<lambda>k. frac (np_real w (np_pos w + k))) [0..<?n]"
  have l1: "length ?f1 = ?n" and l2: "length ?f2 = ?n"
    using assms by (simp_all add: valid_nd_def ravel_def)
  have s: "map2 (+) ?f1 (map2 (*) ?us (map2 (-) ?f2 ?f1)) = blend_buf w (np_pos w) x1 x2"
    by (rule nth_equalityI) (simp_all add: l1 l2 blend_buf_def)
  show ?thesis
    unfolding de_blend_def np_random_uniform_n_def Let_def prod.case
    by (simp add: l1 l2 np_binop_same s alloc_def) (simp add: blend_buf_def)
qed

lemma blend_buf_ext:
  "\<lbrakk>valid_nd w x1; valid_nd w x2; heap w' = heap w @ ext; np_real w' = np_real w\<rbrakk>
   \<Longrightarrow> blend_buf w' p x1 x2 = blend_buf w p x1 x2"
  using ravel_ext [of w x1 w' ext] ravel_ext [of w x2 w' ext]
  by (simp add: blend_buf_def)

lemma de_crossover_layer_result:
  assumes v1: "valid_agent w nn1" and v2: "valid_agent w nn2" and st: "same_topology nn1 nn2"
    and i: "i < 2"
  shows "de_crossover_layer nn1 nn2 i (cs, bs, w) =
     Inr (cs @ [\<lparr>base = length (heap w), shape = shape (coefs nn1 ! i)\<rparr>],
          bs @ [\<lparr>base = length (heap w) + 1, shape = shape (intercepts nn1 ! i)\<rparr>],
          w\<lparr>heap := heap w @ [blend_buf w (np_pos w) (coefs nn1 ! i) (coefs nn2 ! i),
                              blend_buf w (np_pos w + size_of (shape (coefs nn1 ! i)))
                                (intercepts nn1 ! i) (intercepts nn2 ! i)],
            np_pos := np_pos w + size_of (shape (coefs nn1 ! i))
                        + size_of (shape (intercepts nn1 ! i))\<rparr>)"
proof -
  let ?c1 = "coefs nn1 ! i" and ?c2 = "coefs nn2 ! i"
  let ?b1 = "intercepts nn1 ! i" and ?b2 = "intercepts nn2 ! i"
  let ?w1 = "w\<lparr>heap := heap w @ [blend_buf w (np_pos w) ?c1 ?c2],
               np_pos := np_pos w + size_of (shape ?c1)\<rparr>"
  have len: "i < length (coefs nn1)" "i < length (coefs nn2)"
    "i < length (intercepts nn1)" "i < length (intercepts nn2)"
    using v1 v2 i by (simp_all add: valid_agent_def)
  have vc: "valid_nd w ?c1" "valid_nd w ?c2" and vb: "valid_nd w ?b1" "valid_nd w ?b2"
    using valid_agent_nth [OF v1 i] valid_agent_nth [OF v2 i] by simp_all
  have sh: "shape ?c2 = shape ?c1" "shape ?b2 = shape ?b1"
    using same_topology_nth [OF st v1 v2 i] by simp_all
  have h1: "heap ?w1 = heap w @ [blend_buf w (np_pos w) ?c1 ?c2]" by simp
  have vb1: "valid_nd ?w1 ?b1" "valid_nd ?w1 ?b2"
    using vb valid_nd_ext [OF _ h1] by blast+
  have bb: "blend_buf ?w1 p ?b1 ?b2 = blend_buf w p ?b1 ?b2" for p
    by (rule blend_buf_ext [OF vb h1]) simp
  show ?thesis
    unfolding de_crossover_layer_def
    by (simp add: nth_err_def len de_blend_result [OF vc sh(1)] de_blend_result [OF vb1 sh(2)] bb
        add.assoc)
qed


text \<open>
  The result of \<open>de_crossover\<close> on two parents of one topology: four new buffers behind
  the store, in the order weights, biases, weights, biases, and arrays of the first
  parent's shapes that refer to them.
\<close>

lemma de_crossover_result:
  assumes v1: "valid_agent w nn1" and v2: "valid_agent w nn2" and st: "same_topology nn1 nn2"
  shows "de_crossover nn1 nn2 w =
     Inr ([\<lparr>base = length (heap w), shape = shape (coefs nn1 ! 0)\<rparr>,
           \<lparr>base = length (heap w) + 2, shape = shape (coefs nn1 ! 1)\<rparr>],
          [\<lparr>base = length (heap w) + 1, shape = shape (intercepts nn1 ! 0)\<rparr>,
           \<lparr>base = length (heap w) + 3, shape = shape (intercepts nn1 ! 1)\<rparr>],
          w\<lparr>heap := heap w @
                 [blend_buf w (np_pos w) (coefs nn1 ! 0) (coefs nn2 ! 0),
                  blend_buf w (np_pos w + size_of (shape (coefs nn1 ! 0)))
                    (intercepts nn1 ! 0) (intercepts nn2 ! 0),
                  blend_buf w (np_pos w + size_of (shape (coefs nn1 ! 0))
                                 + size_of (shape (intercepts nn1 ! 0)))
                    (coefs nn1 ! 1) (coefs nn2 ! 1),
                  blend_buf w (np_pos w + size_of (shape (coefs nn1 ! 0))
                                 + size_of (shape (intercepts nn1 ! 0))
                                 + size_of (shape (coefs nn1 ! 1)))
                    (intercepts nn1 ! 1) (intercepts nn2 ! 1)],
            np_pos := np_pos w + size_of (shape (coefs nn1 ! 0))
                        + size_of (shape (intercepts nn1 ! 0))
                        + size_of (shape (coefs nn1 ! 1))
                        + size_of (shape (intercepts nn1 ! 1))\<rparr>)"
proof -
  let ?B0 = "blend_buf w (np_pos w) (coefs nn1 ! 0) (coefs nn2 ! 0)"
  let ?B1 = "blend_buf w (np_pos w + size_of (shape (coefs nn1 ! 0)))
                    (intercepts nn1 ! 0) (intercepts nn2 ! 0)"
  let ?w1 = "w\<lparr>heap := heap w @ [?B0, ?B1],
            np_pos := np_pos w + size_of (shape (coefs nn1 ! 0))
                        + size_of (shape (intercepts nn1 ! 0))\<rparr>"
  have h1: "heap ?w1 = heap w @ [?B0, ?B1]" by simp
  have v1': "valid_agent ?w1 nn1" and v2': "valid_agent ?w1 nn2"
    using valid_agent_ext [OF v1 h1] valid_agent_ext [OF v2 h1] by blast+
  have vn: "valid_nd w (coefs nn1 ! 1)" "valid_nd w (coefs nn2 ! 1)"
    "valid_nd w (intercepts nn1 ! 1)" "valid_nd w (intercepts nn2 ! 1)"
    using valid_agent_nth [OF v1, of 1] valid_agent_nth [OF v2, of 1] by simp_all
  have bc: "blend_buf ?w1 p (coefs nn1 ! 1) (coefs nn2 ! 1) = blend_buf w p (coefs nn1 ! 1) (coefs nn2 ! 1)" for p
    by (rule blend_buf_ext [OF vn(1,2) h1]) simp
  have bi: "blend_buf ?w1 p (intercepts nn1 ! 1) (intercepts nn2 ! 1)
            = blend_buf w p (intercepts nn1 ! 1) (intercepts nn2 ! 1)" for p
    by (rule blend_buf_ext [OF vn(3,4) h1]) simp
  have two: "[0..<2] = [0, 1]" by (simp add: upt_rec)
  have l0: "de_crossover_layer nn1 nn2 0 ([], [], w) = Inr
      ([\<lparr>base = length (heap w), shape = shape (coefs nn1 ! 0)\<rparr>],
       [\<lparr>base = length (heap w) + 1, shape = shape (intercepts nn1 ! 0)\<rparr>], ?w1)"
    using de_crossover_layer_result [OF v1 v2 st, of 0 "[]" "[]"] by simp
  show ?thesis
    unfolding de_crossover_def two
    apply (simp add: l0 del: One_nat_def)
    apply (subst de_crossover_layer_result [OF v1' v2' st])
     apply simp
    apply (simp add: bc bi del: One_nat_def)
    done
qed

lemma blend_buf_nth:
  "j < size_of (shape x1) \<Longrightarrow>
   blend_buf w p x1 x2 ! j
     = ravel w x1 ! j + frac (np_real w (p + j)) * (ravel w x2 ! j - ravel w x1 ! j)"
  by (simp add: blend_buf_def)

lemma blend_buf_self: "valid_nd w x \<Longrightarrow> blend_buf w p x x = ravel w x"
  by (rule nth_equalityI) (simp_all add: blend_buf_def valid_nd_def ravel_def)

lemma blend_between:
  fixes a b u :: real
  assumes "0 \<le> u" "u \<le> 1"
  shows "min a b \<le> a + u * (b - a) \<and> a + u * (b - a) \<le> max a b"
proof (cases "a \<le> b")
  case True
  then have "0 \<le> u * (b - a)" using assms by simp
  moreover have "u * (b - a) \<le> 1 * (b - a)"
    using True assms by (intro mult_right_mono) simp_all
  ultimately show ?thesis using True by simp
next
  case False
  then have "0 \<le> u * (a - b)" using assms by simp
  moreover have "u * (a - b) \<le> 1 * (a - b)"
    using False assms by (intro mult_right_mono) simp_all
  ultimately show ?thesis using False by (simp add: algebra_simps)
qed

lemma blend_buf_elem:
  assumes "j < size_of (shape x1)"
  shows "(\<exists>u. 0 \<le> u \<and> u < 1 \<and>
            blend_buf w p x1 x2 ! j = ravel w x1 ! j + u * (ravel w x2 ! j - ravel w x1 ! j))
         \<and> min (ravel w x1 ! j) (ravel w x2 ! j) \<le> blend_buf w p x1 x2 ! j
         \<and> blend_buf w p x1 x2 ! j \<le> max (ravel w x1 ! j) (ravel w x2 ! j)"
proof -
  let ?u = "frac (np_real w (p + j))"
  have u: "0 \<le> ?u" "?u < 1" by (simp_all add: frac_lt_1)
  have e: "blend_buf w p x1 x2 ! j = ravel w x1 ! j + ?u * (ravel w x2 ! j - ravel w x1 ! j)"
    using assms by (rule blend_buf_nth)
  have "?u \<le> 1" using u(2) by simp
  note b = blend_between [OF u(1) this, of "ravel w x1 ! j" "ravel w x2 ! j"]
  have ex: "\<exists>u. 0 \<le> u \<and> u < 1 \<and>
            blend_buf w p x1 x2 ! j = ravel w x1 ! j + u * (ravel w x2 ! j - ravel w x1 ! j)"
    using u e by blast
  show ?thesis using ex b unfolding e by blast
qed

subsection \<open>de\_crossover\_classic\<close>

lemma classic_buf_0: "a < length (heap w) \<Longrightarrow> (heap w)[a := classic_buf w p R a d1 d2 d3 0] = heap w"
  by (simp add: classic_buf_def map_nth)

lemma classic_buf_Suc:
  assumes "m < length (heap w ! a)"
  shows "classic_buf w p R a d1 d2 d3 (Suc m) =
     (if frac (np_real w (p + m)) < CR \<or> m = R
      then (classic_buf w p R a d1 d2 d3 m)
             [m := heap w ! d1 ! m + F * (heap w ! d2 ! m - heap w ! d3 ! m)]
      else classic_buf w p R a d1 d2 d3 m)"
  using assms
  by (auto simp: classic_buf_def less_Suc_eq nth_list_update intro!: nth_equalityI)


text \<open>
  The loop over the flat array, by induction on the number of iterations made. Reading a
  donor at index \<open>m\<close> gives the value of the store before the loop even when the donor's
  buffer is the target's own, since the iterations so far wrote below \<open>m\<close> only.
\<close>

lemma de_classic_loop:
  assumes a: "a < length (heap w)"
    and d: "d1 < length (heap w)" "d2 < length (heap w)" "d3 < length (heap w)"
    and l: "length (heap w ! a) \<le> length (heap w ! d1)"
           "length (heap w ! a) \<le> length (heap w ! d2)"
           "length (heap w ! a) \<le> length (heap w ! d3)"
    and m: "m \<le> length (heap w ! a)"
  shows "for_err [0..<m] (de_classic_step R a d1 d2 d3) w =
           Inr (w\<lparr>heap := (heap w)[a := classic_buf w (np_pos w) R a d1 d2 d3 m],
                  np_pos := np_pos w + m\<rparr>)"
  using m
proof (induction m)
  case 0
  then show ?case using a by (simp add: classic_buf_0)
next
  case (Suc m)
  let ?B = "classic_buf w (np_pos w) R a d1 d2 d3 m"
  let ?wm = "w\<lparr>heap := (heap w)[a := ?B], np_pos := np_pos w + m\<rparr>"
  have m: "m < length (heap w ! a)" using Suc.prems by simp
  have IH: "for_err [0..<m] (de_classic_step R a d1 d2 d3) w = Inr ?wm"
    using Suc by simp
  have lB: "length ?B = length (heap w ! a)" by (simp add: classic_buf_def)
  have Bm: "?B ! m = heap w ! a ! m" using m by (simp add: classic_buf_def)
  have rd: "(heap w)[a := ?B] ! d1 ! m = heap w ! d1 ! m"
    "(heap w)[a := ?B] ! d2 ! m = heap w ! d2 ! m"
    "(heap w)[a := ?B] ! d3 ! m = heap w ! d3 ! m"
    using store_read [OF a _ Bm] d by simp_all
  have ln: "m < length ((heap w)[a := ?B] ! d1)" "m < length ((heap w)[a := ?B] ! d2)"
    "m < length ((heap w)[a := ?B] ! d3)"
    using store_len [OF a _ lB] d l m by simp_all
  have step: "de_classic_step R a d1 d2 d3 m ?wm =
      Inr (w\<lparr>heap := (heap w)[a := classic_buf w (np_pos w) R a d1 d2 d3 (Suc m)],
             np_pos := np_pos w + Suc m\<rparr>)"
    unfolding de_classic_step_def np_random_uniform_def Let_def prod.case
    using a by (simp add: nth_err_def ln rd classic_buf_Suc [OF m])
  show ?case
    by (simp only: upt_Suc_append [OF le0] for_err_append IH bnd_simps for_err.simps step)
qed

lemma de_classic_tensor_result:
  assumes x: "valid_nd w x" and y: "valid_nd w y1" "valid_nd w y2" "valid_nd w y3"
    and s: "shape y1 = shape x" "shape y2 = shape x" "shape y3 = shape x"
  shows "de_classic_tensor x y1 y2 y3 w =
           Inr (x, w\<lparr>heap := (heap w)[base x := tensor_new w (np_pos w) x y1 y2 y3],
                     np_pos := np_pos w + 1 + size_of (shape x)\<rparr>)"
proof -
  let ?R = "np_nat w (np_pos w) mod (len_of_shape (shape x) + 1)"
  let ?w1 = "w\<lparr>np_pos := Suc (np_pos w)\<rparr>"
  have a: "base x < length (heap ?w1)" using x by (simp add: valid_nd_def)
  have d: "base y1 < length (heap ?w1)" "base y2 < length (heap ?w1)" "base y3 < length (heap ?w1)"
    using y by (simp_all add: valid_nd_def)
  have n: "length (heap ?w1 ! base x) = size_of (shape x)" using x by (simp add: valid_nd_def)
  have l: "length (heap ?w1 ! base x) \<le> length (heap ?w1 ! base y1)"
    "length (heap ?w1 ! base x) \<le> length (heap ?w1 ! base y2)"
    "length (heap ?w1 ! base x) \<le> length (heap ?w1 ! base y3)"
    using x y s by (simp_all add: valid_nd_def)
  have cb: "classic_buf ?w1 p R a d1 d2 d3 m = classic_buf w p R a d1 d2 d3 m" for p R a d1 d2 d3 m
    by (auto simp: classic_buf_def)
  note loop = de_classic_loop [OF a d l, of "size_of (shape x)" ?R, unfolded n, OF le_refl]
  show ?thesis
    unfolding de_classic_tensor_def np_random_integers_def Let_def prod.case ravel_def
    apply (simp only: n loop bnd_simps)
    apply (simp add: tensor_new_def cb)
    done
qed

lemma tensor_new_length: "length (tensor_new w p x y1 y2 y3) = length (heap w ! base x)"
  by (simp add: tensor_new_def classic_buf_def)

lemma tensor_new_cong:
  "\<lbrakk>heap w' ! base x = heap w ! base x; heap w' ! base y1 = heap w ! base y1;
    heap w' ! base y2 = heap w ! base y2; heap w' ! base y3 = heap w ! base y3;
    np_real w' = np_real w; np_nat w' = np_nat w\<rbrakk>
   \<Longrightarrow> tensor_new w' p x y1 y2 y3 = tensor_new w p x y1 y2 y3"
  by (auto simp: tensor_new_def classic_buf_def)

lemma de_crossover_classic_layer_result:
  assumes va: "valid_agent w agent"
    and vr: "valid_agent w r0" "valid_agent w r1" "valid_agent w r2"
    and st: "same_topology agent r0" "same_topology agent r1" "same_topology agent r2"
    and ne: "base (coefs agent ! i) \<noteq> base (intercepts agent ! i)"
    and dj: "base (coefs agent ! i) \<notin> set (bases r0)" "base (coefs agent ! i) \<notin> set (bases r1)"
      "base (coefs agent ! i) \<notin> set (bases r2)"
    and i: "i < 2"
  shows "de_crossover_classic_layer agent [r0, r1, r2] i (cs, bs, w) =
     Inr (cs @ [coefs agent ! i], bs @ [intercepts agent ! i],
          w\<lparr>heap := (heap w)
                 [base (coefs agent ! i) :=
                    tensor_new w (np_pos w) (coefs agent ! i)
                      (coefs r0 ! i) (coefs r1 ! i) (coefs r2 ! i),
                  base (intercepts agent ! i) :=
                    tensor_new w (np_pos w + 1 + size_of (shape (coefs agent ! i)))
                      (intercepts agent ! i)
                      (intercepts r0 ! i) (intercepts r1 ! i) (intercepts r2 ! i)],
            np_pos := np_pos w + 2 + size_of (shape (coefs agent ! i))
                        + size_of (shape (intercepts agent ! i))\<rparr>)"
proof -
  let ?c = "coefs agent ! i" and ?b = "intercepts agent ! i"
  let ?y1 = "coefs r0 ! i" and ?y2 = "coefs r1 ! i" and ?y3 = "coefs r2 ! i"
  let ?z1 = "intercepts r0 ! i" and ?z2 = "intercepts r1 ! i" and ?z3 = "intercepts r2 ! i"
  let ?N = "tensor_new w (np_pos w) ?c ?y1 ?y2 ?y3"
  let ?w1 = "w\<lparr>heap := (heap w)[base ?c := ?N], np_pos := np_pos w + 1 + size_of (shape ?c)\<rparr>"
  have len: "i < length (coefs agent)" "i < length (intercepts agent)"
    "i < length (coefs r0)" "i < length (coefs r1)" "i < length (coefs r2)"
    "i < length (intercepts r0)" "i < length (intercepts r1)" "i < length (intercepts r2)"
    using va vr i by (simp_all add: valid_agent_def)
  have vc: "valid_nd w ?c" and vb: "valid_nd w ?b"
    using valid_agent_nth [OF va i] by simp_all
  have vy: "valid_nd w ?y1" "valid_nd w ?y2" "valid_nd w ?y3"
    and vz: "valid_nd w ?z1" "valid_nd w ?z2" "valid_nd w ?z3"
    using valid_agent_nth [OF vr(1) i] valid_agent_nth [OF vr(2) i] valid_agent_nth [OF vr(3) i]
    by simp_all
  have sy: "shape ?y1 = shape ?c" "shape ?y2 = shape ?c" "shape ?y3 = shape ?c"
    and sz: "shape ?z1 = shape ?b" "shape ?z2 = shape ?b" "shape ?z3 = shape ?b"
    using same_topology_nth [OF st(1) va vr(1) i] same_topology_nth [OF st(2) va vr(2) i]
      same_topology_nth [OF st(3) va vr(3) i] by simp_all
  have t1: "de_classic_tensor ?c ?y1 ?y2 ?y3 w = Inr (?c, ?w1)"
    using de_classic_tensor_result [OF vc vy sy] by simp
  have sz1: "length (heap ?w1) = length (heap w)"
    "\<forall>k<length (heap w). length (heap ?w1 ! k) = length (heap w ! k)"
    using vc by (auto simp: valid_nd_def store_len tensor_new_length)
  have vb1: "valid_nd ?w1 ?b" and vz1: "valid_nd ?w1 ?z1" "valid_nd ?w1 ?z2" "valid_nd ?w1 ?z3"
    using valid_nd_sizes [OF vb sz1] valid_nd_sizes [OF vz(1) sz1] valid_nd_sizes [OF vz(2) sz1]
      valid_nd_sizes [OF vz(3) sz1] by simp_all
  have nz: "base ?z1 \<noteq> base ?c" "base ?z2 \<noteq> base ?c" "base ?z3 \<noteq> base ?c"
    using dj nth_mem_bases [OF vr(1) i] nth_mem_bases [OF vr(2) i] nth_mem_bases [OF vr(3) i]
    by auto
  have tn: "tensor_new ?w1 p ?b ?z1 ?z2 ?z3 = tensor_new w p ?b ?z1 ?z2 ?z3" for p
    by (rule tensor_new_cong) (use ne nz in simp_all)
  have t2: "de_classic_tensor ?b ?z1 ?z2 ?z3 ?w1 =
      Inr (?b, ?w1\<lparr>heap := (heap ?w1)[base ?b := tensor_new w (np_pos ?w1) ?b ?z1 ?z2 ?z3],
                    np_pos := np_pos ?w1 + 1 + size_of (shape ?b)\<rparr>)"
    using de_classic_tensor_result [OF vb1 vz1 sz] by (simp only: tn)
  show ?thesis
    unfolding de_crossover_classic_layer_def prod.case
    by (simp add: nth_err_def len t1 t2 [simplified])
qed


text \<open>
  The result of \<open>de_crossover_classic\<close> for a target and three donors of its topology
  whose buffers are apart from the target's: the arrays returned are the target's own
  arrays, and the target's four buffers hold the new values.
\<close>

lemma de_crossover_classic_result:
  assumes va: "valid_agent w agent"
    and vr: "valid_agent w r0" "valid_agent w r1" "valid_agent w r2"
    and st: "same_topology agent r0" "same_topology agent r1" "same_topology agent r2"
    and di: "distinct (bases agent)"
    and dj: "set (bases agent) \<inter> set (bases r0) = {}" "set (bases agent) \<inter> set (bases r1) = {}"
      "set (bases agent) \<inter> set (bases r2) = {}"
  shows "de_crossover_classic agent [r0, r1, r2] w =
     Inr (coefs agent, intercepts agent,
          w\<lparr>heap := (heap w)
                 [base (coefs agent ! 0) :=
                    tensor_new w (coef_pos w agent 0) (coefs agent ! 0)
                      (coefs r0 ! 0) (coefs r1 ! 0) (coefs r2 ! 0),
                  base (intercepts agent ! 0) :=
                    tensor_new w (intercept_pos w agent 0) (intercepts agent ! 0)
                      (intercepts r0 ! 0) (intercepts r1 ! 0) (intercepts r2 ! 0),
                  base (coefs agent ! 1) :=
                    tensor_new w (coef_pos w agent 1) (coefs agent ! 1)
                      (coefs r0 ! 1) (coefs r1 ! 1) (coefs r2 ! 1),
                  base (intercepts agent ! 1) :=
                    tensor_new w (intercept_pos w agent 1) (intercepts agent ! 1)
                      (intercepts r0 ! 1) (intercepts r1 ! 1) (intercepts r2 ! 1)],
            np_pos := coef_pos w agent 2\<rparr>)"
proof -
  let ?c0 = "coefs agent ! 0" and ?c1 = "coefs agent ! 1"
  let ?b0 = "intercepts agent ! 0" and ?b1 = "intercepts agent ! 1"
  let ?N0 = "tensor_new w (coef_pos w agent 0) ?c0 (coefs r0 ! 0) (coefs r1 ! 0) (coefs r2 ! 0)"
  let ?M0 = "tensor_new w (intercept_pos w agent 0) ?b0
               (intercepts r0 ! 0) (intercepts r1 ! 0) (intercepts r2 ! 0)"
  let ?w1 = "w\<lparr>heap := (heap w)[base ?c0 := ?N0, base ?b0 := ?M0], np_pos := coef_pos w agent 1\<rparr>"
  have p: "coef_pos w agent 0 = np_pos w"
    "intercept_pos w agent 0 = np_pos w + 1 + size_of (shape ?c0)"
    "coef_pos w agent 1 = np_pos w + 2 + size_of (shape ?c0) + size_of (shape ?b0)"
    "intercept_pos w agent 1 = coef_pos w agent 1 + 1 + size_of (shape ?c1)"
    "coef_pos w agent 2 = coef_pos w agent 1 + 2 + size_of (shape ?c1) + size_of (shape ?b1)"
    by (simp_all add: coef_pos_def intercept_pos_def numeral_2_eq_2)
  note nd = bases_distinct [OF va di]
  have l0: "de_crossover_classic_layer agent [r0, r1, r2] 0 ([], [], w) = Inr ([?c0], [?b0], ?w1)"
    using de_crossover_classic_layer_result [OF va vr st nd(2)
        bases_disjoint(5) [OF va vr(1) dj(1)] bases_disjoint(5) [OF va vr(2) dj(2)]
        bases_disjoint(5) [OF va vr(3) dj(3)], of 0 0 0 "[]" "[]"]
    by (simp add: p del: One_nat_def)
  define w1 where "w1 = ?w1"
  have h1: "heap w1 = (heap w)[base ?c0 := ?N0, base ?b0 := ?M0]"
    and p1: "np_pos w1 = coef_pos w agent 1"
    and o1: "np_real w1 = np_real w" "np_nat w1 = np_nat w"
    by (simp_all add: w1_def)
  have vcb: "valid_nd w ?c0" "valid_nd w ?b0"
    using valid_agent_nth [OF va, of 0] by simp_all
  have sz1: "length (heap w1) = length (heap w)"
    "\<forall>k<length (heap w). length (heap w1 ! k) = length (heap w ! k)"
    using vcb by (auto simp: h1 valid_nd_def store_len tensor_new_length)
  have va1: "valid_agent w1 agent" and vr1: "valid_agent w1 r0" "valid_agent w1 r1" "valid_agent w1 r2"
    using valid_agent_sizes [OF va sz1] valid_agent_sizes [OF vr(1) sz1]
      valid_agent_sizes [OF vr(2) sz1] valid_agent_sizes [OF vr(3) sz1] by simp_all
  have keep: "heap w1 ! a = heap w ! a" if "a \<noteq> base ?c0" "a \<noteq> base ?b0" for a
    using that by (simp add: h1)
  have tc: "tensor_new w1 q ?c1 (coefs r0 ! 1) (coefs r1 ! 1) (coefs r2 ! 1)
            = tensor_new w q ?c1 (coefs r0 ! 1) (coefs r1 ! 1) (coefs r2 ! 1)" for q
    apply (rule tensor_new_cong)
    using nd bases_disjoint(1,3) [OF va vr(1) dj(1), of 0 1]
      bases_disjoint(1,3) [OF va vr(2) dj(2), of 0 1]
      bases_disjoint(1,3) [OF va vr(3) dj(3), of 0 1]
    by (simp_all add: keep o1)
  have tb: "tensor_new w1 q ?b1 (intercepts r0 ! 1) (intercepts r1 ! 1) (intercepts r2 ! 1)
            = tensor_new w q ?b1 (intercepts r0 ! 1) (intercepts r1 ! 1) (intercepts r2 ! 1)" for q
    apply (rule tensor_new_cong)
    using nd bases_disjoint(2,4) [OF va vr(1) dj(1), of 0 1]
      bases_disjoint(2,4) [OF va vr(2) dj(2), of 0 1]
      bases_disjoint(2,4) [OF va vr(3) dj(3), of 0 1]
    by (simp_all add: keep o1)
  have fin: "w1\<lparr>heap := (heap w1)
                 [base ?c1 := tensor_new w (coef_pos w agent 1) ?c1
                      (coefs r0 ! 1) (coefs r1 ! 1) (coefs r2 ! 1),
                  base ?b1 := tensor_new w (intercept_pos w agent 1) ?b1
                      (intercepts r0 ! 1) (intercepts r1 ! 1) (intercepts r2 ! 1)],
               np_pos := coef_pos w agent 2\<rparr>
      = w\<lparr>heap := (heap w)[base ?c0 := ?N0, base ?b0 := ?M0,
                  base ?c1 := tensor_new w (coef_pos w agent 1) ?c1
                      (coefs r0 ! 1) (coefs r1 ! 1) (coefs r2 ! 1),
                  base ?b1 := tensor_new w (intercept_pos w agent 1) ?b1
                      (intercepts r0 ! 1) (intercepts r1 ! 1) (intercepts r2 ! 1)],
            np_pos := coef_pos w agent 2\<rparr>"
    by (simp add: w1_def)
  have l1: "de_crossover_classic_layer agent [r0, r1, r2] 1 ([?c0], [?b0], w1) =
     Inr ([?c0, ?c1], [?b0, ?b1],
          w\<lparr>heap := (heap w)[base ?c0 := ?N0, base ?b0 := ?M0,
                  base ?c1 := tensor_new w (coef_pos w agent 1) ?c1
                      (coefs r0 ! 1) (coefs r1 ! 1) (coefs r2 ! 1),
                  base ?b1 := tensor_new w (intercept_pos w agent 1) ?b1
                      (intercepts r0 ! 1) (intercepts r1 ! 1) (intercepts r2 ! 1)],
            np_pos := coef_pos w agent 2\<rparr>)"
    unfolding fin [symmetric]
    using de_crossover_classic_layer_result [OF va1 vr1 st nd(5)
        bases_disjoint(5) [OF va vr(1) dj(1)] bases_disjoint(5) [OF va vr(2) dj(2)]
        bases_disjoint(5) [OF va vr(3) dj(3)], of 1 1 1 "[?c0]" "[?b0]"]
    unfolding p1 tc tb p(4) [symmetric] p(5)
    by (simp add: add.assoc add.commute del: One_nat_def)
  have c: "coefs agent = [?c0, ?c1]" and b: "intercepts agent = [?b0, ?b1]"
    using va list2_nth [of "coefs agent"] list2_nth [of "intercepts agent"]
    by (simp_all add: valid_agent_def)
  have two: "[0..<2] = [0, 1]" by (simp add: upt_rec)
  show ?thesis
    unfolding de_crossover_classic_def two
    apply (simp only: for_err.simps l0 w1_def [symmetric] bnd_simps l1)
    apply (simp only: c [symmetric] b [symmetric])
    done
qed

lemma tensor_new_at_R:
  assumes "valid_nd w x" "drawn_R w p x < size_of (shape x)"
  shows "tensor_new w p x y1 y2 y3 ! drawn_R w p x
         = ravel w y1 ! drawn_R w p x
           + F * (ravel w y2 ! drawn_R w p x - ravel w y3 ! drawn_R w p x)"
  using assms
  by (simp add: tensor_new_def classic_buf_def drawn_R_def valid_nd_def ravel_def)

subsection \<open>Evaluation at concrete inputs\<close>

lemmas ex_defs = ex_agent_def ex_world_def ex_bufs_def ex_count_def
lemmas wf_defs = valid_agent_def valid_nd_def same_topology_def bases_def
lemmas np_defs = np_random_integers_def np_random_uniform_def np_random_uniform_n_def
  np_random_normal_def random_random_def randbelow_def frac_def
lemmas cx_defs = de_crossover_def de_crossover_layer_def de_blend_def np_binop_def alloc_def
  ravel_def nth_err_def upt_rec Let_def
lemmas cl_defs = de_crossover_classic_def de_crossover_classic_layer_def de_classic_tensor_def
  de_classic_step_def ravel_def nth_err_def CR_def F_def upt_rec Let_def

subsection \<open>Claims about de\_crossover\<close>

text \<open>
  The draws of the model are the values of \<open>np_uniform_at\<close>, each in \<open>[0, 1)\<close>.
\<close>

lemma np_random_uniform_at:
  "np_random_uniform w = (np_uniform_at w (np_pos w), w\<lparr>np_pos := Suc (np_pos w)\<rparr>)"
  by (simp add: np_random_uniform_def np_uniform_at_def)

lemma np_random_uniform_n_at:
  "j < n \<Longrightarrow> fst (np_random_uniform_n n w) ! j = np_uniform_at w (np_pos w + j)"
  by (simp add: np_random_uniform_n_def np_uniform_at_def)

lemma np_uniform_at_range: "0 \<le> np_uniform_at w p \<and> np_uniform_at w p < 1"
  by (simp add: np_uniform_at_def frac_lt_1)

lemma blend_buf_draw:
  assumes "j < size_of (shape x1)"
  shows "blend_buf w p x1 x2 ! j
           = ravel w x1 ! j + np_uniform_at w (p + j) * (ravel w x2 ! j - ravel w x1 ! j)
         \<and> min (ravel w x1 ! j) (ravel w x2 ! j) \<le> blend_buf w p x1 x2 ! j
         \<and> blend_buf w p x1 x2 ! j \<le> max (ravel w x1 ! j) (ravel w x2 ! j)"
  using blend_buf_elem [OF assms, of w p x2] blend_buf_nth [OF assms, of w p x2]
  by (simp add: np_uniform_at_def)

text \<open>
  Claim C8: for two parents of one topology and for all draws, \<open>de_crossover\<close> returns
  arrays of the parents' shapes in which every element is \<open>a + u * (b - a)\<close>, for the
  parents' elements \<open>a\<close> and \<open>b\<close> at that place and the uniform draw \<open>u\<close> made for that
  place (one draw for each element, each with \<open>0 \<le> u < 1\<close>), and so lies between \<open>a\<close>
  and \<open>b\<close>, both included; with the same agent as both parents, the arrays returned
  hold the agent's values. (The floats are real numbers here: no rounding or overflow.)
\<close>

theorem de_crossover_between:
  "\<lbrakk>valid_agent w nn1; valid_agent w nn2; same_topology nn1 nn2\<rbrakk> \<Longrightarrow>
   \<exists>newcoefs newintercepts w'.
     de_crossover nn1 nn2 w = Inr (newcoefs, newintercepts, w')
     \<and> map shape newcoefs = map shape (coefs nn1)
     \<and> map shape newintercepts = map shape (intercepts nn1)
     \<and> np_pos w' = uniform_coef_pos w nn1 2
     \<and> (\<forall>i<2. \<forall>j<size_of (shape (coefs nn1 ! i)).
           let a = ravel w (coefs nn1 ! i) ! j;
               b = ravel w (coefs nn2 ! i) ! j;
               u = np_uniform_at w (uniform_coef_pos w nn1 i + j);
               c = ravel w' (newcoefs ! i) ! j
           in c = a + u * (b - a) \<and> 0 \<le> u \<and> u < 1 \<and> min a b \<le> c \<and> c \<le> max a b)
     \<and> (\<forall>i<2. \<forall>j<size_of (shape (intercepts nn1 ! i)).
           let a = ravel w (intercepts nn1 ! i) ! j;
               b = ravel w (intercepts nn2 ! i) ! j;
               u = np_uniform_at w (uniform_intercept_pos w nn1 i + j);
               c = ravel w' (newintercepts ! i) ! j
           in c = a + u * (b - a) \<and> 0 \<le> u \<and> u < 1 \<and> min a b \<le> c \<and> c \<le> max a b)
     \<and> (nn2 = nn1 \<longrightarrow>
           (\<forall>i<2. ravel w' (newcoefs ! i) = ravel w (coefs nn1 ! i)
                 \<and> ravel w' (newintercepts ! i) = ravel w (intercepts nn1 ! i)))"
proof -
  assume v1: "valid_agent w nn1" and v2: "valid_agent w nn2" and st: "same_topology nn1 nn2"
  let ?L = "length (heap w)"
  let ?c0 = "coefs nn1 ! 0" and ?c1 = "coefs nn1 ! 1"
  let ?b0 = "intercepts nn1 ! 0" and ?b1 = "intercepts nn1 ! 1"
  let ?p0 = "uniform_coef_pos w nn1 0" and ?p1 = "uniform_intercept_pos w nn1 0"
  let ?p2 = "uniform_coef_pos w nn1 1" and ?p3 = "uniform_intercept_pos w nn1 1"
  let ?B0 = "blend_buf w ?p0 ?c0 (coefs nn2 ! 0)"
  let ?B1 = "blend_buf w ?p1 ?b0 (intercepts nn2 ! 0)"
  let ?B2 = "blend_buf w ?p2 ?c1 (coefs nn2 ! 1)"
  let ?B3 = "blend_buf w ?p3 ?b1 (intercepts nn2 ! 1)"
  let ?cs = "[\<lparr>base = ?L, shape = shape ?c0\<rparr>, \<lparr>base = ?L + 2, shape = shape ?c1\<rparr>]"
  let ?bs = "[\<lparr>base = ?L + 1, shape = shape ?b0\<rparr>, \<lparr>base = ?L + 3, shape = shape ?b1\<rparr>]"
  let ?w' = "w\<lparr>heap := heap w @ [?B0, ?B1, ?B2, ?B3], np_pos := uniform_coef_pos w nn1 2\<rparr>"
  have p: "?p0 = np_pos w" "?p1 = np_pos w + size_of (shape ?c0)"
    "?p2 = np_pos w + size_of (shape ?c0) + size_of (shape ?b0)"
    "?p3 = np_pos w + size_of (shape ?c0) + size_of (shape ?b0) + size_of (shape ?c1)"
    "uniform_coef_pos w nn1 2 = np_pos w + size_of (shape ?c0) + size_of (shape ?b0)
        + size_of (shape ?c1) + size_of (shape ?b1)"
    by (simp_all add: uniform_coef_pos_def uniform_intercept_pos_def numeral_2_eq_2)
  have r: "de_crossover nn1 nn2 w = Inr (?cs, ?bs, ?w')"
    unfolding p using de_crossover_result [OF v1 v2 st] by simp
  have c2: "coefs nn1 = [?c0, ?c1]" and i2: "intercepts nn1 = [?b0, ?b1]"
    using v1 list2_nth [of "coefs nn1"] list2_nth [of "intercepts nn1"]
    by (simp_all add: valid_agent_def)
  have s1: "map shape ?cs = map shape (coefs nn1)"
    by (subst (3) c2) simp
  have s2: "map shape ?bs = map shape (intercepts nn1)"
    by (subst (3) i2) simp
  have np: "np_pos ?w' = uniform_coef_pos w nn1 2" by simp
  have rv: "ravel ?w' (?cs ! 0) = ?B0" "ravel ?w' (?cs ! 1) = ?B2"
    "ravel ?w' (?bs ! 0) = ?B1" "ravel ?w' (?bs ! 1) = ?B3"
    by (simp_all add: ravel_def nth_append)
  have vn: "valid_nd w ?c0" "valid_nd w ?c1" "valid_nd w ?b0" "valid_nd w ?b1"
    using valid_agent_nth [OF v1, of 0] valid_agent_nth [OF v1, of 1] by simp_all
  have cf: "\<forall>i<2. \<forall>j<size_of (shape (coefs nn1 ! i)).
           let a = ravel w (coefs nn1 ! i) ! j;
               b = ravel w (coefs nn2 ! i) ! j;
               u = np_uniform_at w (uniform_coef_pos w nn1 i + j);
               c = ravel ?w' (?cs ! i) ! j
           in c = a + u * (b - a) \<and> 0 \<le> u \<and> u < 1 \<and> min a b \<le> c \<and> c \<le> max a b"
    unfolding all_less_2 rv Let_def using blend_buf_draw np_uniform_at_range by blast
  have ic: "\<forall>i<2. \<forall>j<size_of (shape (intercepts nn1 ! i)).
           let a = ravel w (intercepts nn1 ! i) ! j;
               b = ravel w (intercepts nn2 ! i) ! j;
               u = np_uniform_at w (uniform_intercept_pos w nn1 i + j);
               c = ravel ?w' (?bs ! i) ! j
           in c = a + u * (b - a) \<and> 0 \<le> u \<and> u < 1 \<and> min a b \<le> c \<and> c \<le> max a b"
    unfolding all_less_2 rv Let_def using blend_buf_draw np_uniform_at_range by blast
  have same: "nn2 = nn1 \<longrightarrow>
           (\<forall>i<2. ravel ?w' (?cs ! i) = ravel w (coefs nn1 ! i)
                 \<and> ravel ?w' (?bs ! i) = ravel w (intercepts nn1 ! i))"
    unfolding all_less_2 rv using vn by (simp add: blend_buf_self)
  show ?thesis
    using r s1 s2 np cf ic same by blast
qed

theorem de_crossover_between_witness:
  "valid_agent (ex_ramp (ex_count @ ex_bufs 0)) (ex_agent 0)
   \<and> valid_agent (ex_ramp (ex_count @ ex_bufs 0)) (ex_agent 4)
   \<and> same_topology (ex_agent 0) (ex_agent 4)
   \<and> (\<exists>newcoefs newintercepts w'.
         de_crossover (ex_agent 0) (ex_agent 4) (ex_ramp (ex_count @ ex_bufs 0))
           = Inr (newcoefs, newintercepts, w'))
   \<and> np_uniform_at (ex_ramp (ex_count @ ex_bufs 0))
         (uniform_coef_pos (ex_ramp (ex_count @ ex_bufs 0)) (ex_agent 0) 1 + 2) = 10 / 16
   \<and> de_crossover (ex_agent 0) (ex_agent 4) (ex_ramp (ex_count @ ex_bufs 0))
       = Inr ([\<lparr>base = 8, shape = Shape2 1 4\<rparr>, \<lparr>base = 10, shape = Shape2 4 1\<rparr>],
              [\<lparr>base = 9, shape = Shape1 4\<rparr>, \<lparr>base = 11, shape = Shape1 1\<rparr>],
              (ex_ramp
                 (ex_count @ ex_bufs 0
                  @ [[1, 15 / 8, 21 / 8, 13 / 4], [27 / 4, 55 / 8, 55 / 8, 27 / 4],
                     [5 / 2, 21 / 8, 21 / 8, 5 / 2], [13 / 4]]))
              \<lparr>np_pos := 13\<rparr>)"
proof -
  let ?W = "ex_ramp (ex_count @ ex_bufs 0)"
  have v1: "valid_agent ?W (ex_agent 0)" and v2: "valid_agent ?W (ex_agent 4)"
    by (simp_all add: ex_defs ex_ramp_def wf_defs)
  have st: "same_topology (ex_agent 0) (ex_agent 4)"
    by (simp add: ex_defs wf_defs)
  have e: "\<exists>newcoefs newintercepts w'.
         de_crossover (ex_agent 0) (ex_agent 4) ?W = Inr (newcoefs, newintercepts, w')"
    using de_crossover_between [OF v1 v2 st] by blast
  have u: "np_uniform_at ?W (uniform_coef_pos ?W (ex_agent 0) 1 + 2) = 10 / 16"
    by (simp add: ex_defs ex_ramp_def np_uniform_at_def uniform_coef_pos_def frac_def)
  have r: "de_crossover (ex_agent 0) (ex_agent 4) ?W
       = Inr ([\<lparr>base = 8, shape = Shape2 1 4\<rparr>, \<lparr>base = 10, shape = Shape2 4 1\<rparr>],
              [\<lparr>base = 9, shape = Shape1 4\<rparr>, \<lparr>base = 11, shape = Shape1 1\<rparr>],
              (ex_ramp
                 (ex_count @ ex_bufs 0
                  @ [[1, 15 / 8, 21 / 8, 13 / 4], [27 / 4, 55 / 8, 55 / 8, 27 / 4],
                     [5 / 2, 21 / 8, 21 / 8, 5 / 2], [13 / 4]]))
              \<lparr>np_pos := 13\<rparr>)"
    by (simp add: ex_defs ex_ramp_def cx_defs np_defs)
  show ?thesis using v1 v2 st e u r by blast
qed

text \<open>
  \<open>de_crossover\<close> writes to no buffer in use: the store after the call is the store
  before it with new buffers behind, and the arrays returned refer to four different
  new buffers.
\<close>

lemma de_crossover_fresh:
  "\<lbrakk>valid_agent w nn1; valid_agent w nn2; same_topology nn1 nn2\<rbrakk> \<Longrightarrow>
   \<exists>newcoefs newintercepts w' new.
     de_crossover nn1 nn2 w = Inr (newcoefs, newintercepts, w')
     \<and> heap w' = heap w @ new
     \<and> map base newcoefs @ map base newintercepts
         = [length (heap w), length (heap w) + 2, length (heap w) + 1, length (heap w) + 3]"
  by (simp add: de_crossover_result)

subsection \<open>Claims about de\_crossover\_classic\<close>

text \<open>
  Claim C3, as stated, says that the element at the forced index \<open>R\<close> differs from the
  target's original value whenever the second and third donor differ there. It need
  not: with the target at 0.8, the first donor at 0, the second at 1 and the third at 0
  (and every uniform draw 0.95, so that only the forced index is assigned), the new
  value at \<open>R = 0\<close> is \<open>0 + 0.8 * (1 - 0)\<close>, the target's own value, and the call leaves
  the whole store as it was.
\<close>

theorem de_crossover_classic_equal_target_counterexample:
  "ravel (ex_world (19 / 20) (ex_bufs (4 / 5) @ ex_bufs 0 @ ex_bufs 1 @ ex_bufs 0))
       (coefs (ex_agent 8) ! 0) ! 0
     \<noteq> ravel (ex_world (19 / 20) (ex_bufs (4 / 5) @ ex_bufs 0 @ ex_bufs 1 @ ex_bufs 0))
         (coefs (ex_agent 12) ! 0) ! 0
   \<and> drawn_R (ex_world (19 / 20) (ex_bufs (4 / 5) @ ex_bufs 0 @ ex_bufs 1 @ ex_bufs 0))
         (coef_pos (ex_world (19 / 20) (ex_bufs (4 / 5) @ ex_bufs 0 @ ex_bufs 1 @ ex_bufs 0))
            (ex_agent 0) 0)
         (coefs (ex_agent 0) ! 0) = 0
   \<and> de_crossover_classic (ex_agent 0) [ex_agent 4, ex_agent 8, ex_agent 12]
         (ex_world (19 / 20) (ex_bufs (4 / 5) @ ex_bufs 0 @ ex_bufs 1 @ ex_bufs 0))
       = Inr (coefs (ex_agent 0), intercepts (ex_agent 0),
              (ex_world (19 / 20) (ex_bufs (4 / 5) @ ex_bufs 0 @ ex_bufs 1 @ ex_bufs 0))
              \<lparr>np_pos := 17\<rparr>)
   \<and> ravel ((ex_world (19 / 20) (ex_bufs (4 / 5) @ ex_bufs 0 @ ex_bufs 1 @ ex_bufs 0))
              \<lparr>np_pos := 17\<rparr>) (coefs (ex_agent 0) ! 0) ! 0
       = ravel (ex_world (19 / 20) (ex_bufs (4 / 5) @ ex_bufs 0 @ ex_bufs 1 @ ex_bufs 0))
           (coefs (ex_agent 0) ! 0) ! 0"
  by (simp add: ex_defs cl_defs np_defs drawn_R_def coef_pos_def)

text \<open>
  Claim C3 (amended): for a target and three donors of its topology (the target's four
  buffers different from each other and from the donors'), \<open>de_crossover_classic\<close>
  returns, and for each array, with \<open>R\<close> the index drawn for it: whenever \<open>R\<close> lies within
  the flattened length, the output element at \<open>R\<close> is
  \<open>donor1 + F * (donor2 - donor3)\<close> at that index, with \<open>F = 0.8\<close>; it differs from the
  target's original value exactly when that original value is not
  \<open>donor1 + F * (donor2 - donor3)\<close>.
\<close>

theorem de_crossover_classic_forced_index:
  "\<lbrakk>valid_agent w agent; valid_agent w r0; valid_agent w r1; valid_agent w r2;
    same_topology agent r0; same_topology agent r1; same_topology agent r2;
    distinct (bases agent);
    set (bases agent) \<inter> set (bases r0) = {}; set (bases agent) \<inter> set (bases r1) = {};
    set (bases agent) \<inter> set (bases r2) = {}\<rbrakk> \<Longrightarrow>
   \<exists>newcoefs newintercepts w'.
     de_crossover_classic agent [r0, r1, r2] w = Inr (newcoefs, newintercepts, w')
     \<and> (\<forall>i<2.
           let R = drawn_R w (coef_pos w agent i) (coefs agent ! i);
               v = ravel w (coefs r0 ! i) ! R
                     + F * (ravel w (coefs r1 ! i) ! R - ravel w (coefs r2 ! i) ! R)
           in R < size_of (shape (coefs agent ! i)) \<longrightarrow>
                ravel w' (newcoefs ! i) ! R = v
                \<and> ((ravel w' (newcoefs ! i) ! R \<noteq> ravel w (coefs agent ! i) ! R)
                     = (ravel w (coefs agent ! i) ! R \<noteq> v)))
     \<and> (\<forall>i<2.
           let R = drawn_R w (intercept_pos w agent i) (intercepts agent ! i);
               v = ravel w (intercepts r0 ! i) ! R
                     + F * (ravel w (intercepts r1 ! i) ! R - ravel w (intercepts r2 ! i) ! R)
           in R < size_of (shape (intercepts agent ! i)) \<longrightarrow>
                ravel w' (newintercepts ! i) ! R = v
                \<and> ((ravel w' (newintercepts ! i) ! R \<noteq> ravel w (intercepts agent ! i) ! R)
                     = (ravel w (intercepts agent ! i) ! R \<noteq> v)))"
proof -
  assume va: "valid_agent w agent"
    and vr: "valid_agent w r0" "valid_agent w r1" "valid_agent w r2"
    and st: "same_topology agent r0" "same_topology agent r1" "same_topology agent r2"
    and di: "distinct (bases agent)"
    and dj: "set (bases agent) \<inter> set (bases r0) = {}" "set (bases agent) \<inter> set (bases r1) = {}"
      "set (bases agent) \<inter> set (bases r2) = {}"
  let ?c0 = "coefs agent ! 0" and ?c1 = "coefs agent ! 1"
  let ?b0 = "intercepts agent ! 0" and ?b1 = "intercepts agent ! 1"
  let ?N0 = "tensor_new w (coef_pos w agent 0) ?c0 (coefs r0 ! 0) (coefs r1 ! 0) (coefs r2 ! 0)"
  let ?M0 = "tensor_new w (intercept_pos w agent 0) ?b0
               (intercepts r0 ! 0) (intercepts r1 ! 0) (intercepts r2 ! 0)"
  let ?N1 = "tensor_new w (coef_pos w agent 1) ?c1 (coefs r0 ! 1) (coefs r1 ! 1) (coefs r2 ! 1)"
  let ?M1 = "tensor_new w (intercept_pos w agent 1) ?b1
               (intercepts r0 ! 1) (intercepts r1 ! 1) (intercepts r2 ! 1)"
  let ?w' = "w\<lparr>heap := (heap w)[base ?c0 := ?N0, base ?b0 := ?M0, base ?c1 := ?N1, base ?b1 := ?M1],
               np_pos := coef_pos w agent 2\<rparr>"
  have r: "de_crossover_classic agent [r0, r1, r2] w = Inr (coefs agent, intercepts agent, ?w')"
    by (rule de_crossover_classic_result [OF va vr st di dj])
  note nd = bases_distinct [OF va di]
  have vn: "valid_nd w ?c0" "valid_nd w ?c1" "valid_nd w ?b0" "valid_nd w ?b1"
    using valid_agent_nth [OF va, of 0] valid_agent_nth [OF va, of 1] by simp_all
  have lt: "base ?c0 < length (heap w)" "base ?c1 < length (heap w)"
    "base ?b0 < length (heap w)" "base ?b1 < length (heap w)"
    using vn by (simp_all add: valid_nd_def)
  have rv: "ravel ?w' ?c0 = ?N0" "ravel ?w' ?b0 = ?M0" "ravel ?w' ?c1 = ?N1" "ravel ?w' ?b1 = ?M1"
    using nd lt by (simp_all add: ravel_def)
  have cf: "\<forall>i<2.
           let R = drawn_R w (coef_pos w agent i) (coefs agent ! i);
               v = ravel w (coefs r0 ! i) ! R
                     + F * (ravel w (coefs r1 ! i) ! R - ravel w (coefs r2 ! i) ! R)
           in R < size_of (shape (coefs agent ! i)) \<longrightarrow>
                ravel ?w' (coefs agent ! i) ! R = v
                \<and> ((ravel ?w' (coefs agent ! i) ! R \<noteq> ravel w (coefs agent ! i) ! R)
                     = (ravel w (coefs agent ! i) ! R \<noteq> v))"
    unfolding all_less_2 Let_def rv
    using tensor_new_at_R [OF vn(1)] tensor_new_at_R [OF vn(2)] by auto
  have ic: "\<forall>i<2.
           let R = drawn_R w (intercept_pos w agent i) (intercepts agent ! i);
               v = ravel w (intercepts r0 ! i) ! R
                     + F * (ravel w (intercepts r1 ! i) ! R - ravel w (intercepts r2 ! i) ! R)
           in R < size_of (shape (intercepts agent ! i)) \<longrightarrow>
                ravel ?w' (intercepts agent ! i) ! R = v
                \<and> ((ravel ?w' (intercepts agent ! i) ! R \<noteq> ravel w (intercepts agent ! i) ! R)
                     = (ravel w (intercepts agent ! i) ! R \<noteq> v))"
    unfolding all_less_2 Let_def rv
    using tensor_new_at_R [OF vn(3)] tensor_new_at_R [OF vn(4)] by auto
  show ?thesis
    using r cf ic by blast
qed

theorem de_crossover_classic_forced_index_witness:
  "valid_agent (ex_world (19 / 20) (ex_bufs 0 @ ex_bufs 1 @ ex_bufs 1 @ ex_bufs 0)) (ex_agent 0)
   \<and> distinct (bases (ex_agent 0))
   \<and> set (bases (ex_agent 0)) \<inter> set (bases (ex_agent 4)) = {}
   \<and> same_topology (ex_agent 0) (ex_agent 4)
   \<and> drawn_R (ex_world (19 / 20) (ex_bufs 0 @ ex_bufs 1 @ ex_bufs 1 @ ex_bufs 0))
         (coef_pos (ex_world (19 / 20) (ex_bufs 0 @ ex_bufs 1 @ ex_bufs 1 @ ex_bufs 0))
            (ex_agent 0) 0)
         (coefs (ex_agent 0) ! 0) = 0
   \<and> (\<exists>newcoefs newintercepts w'.
         de_crossover_classic (ex_agent 0) [ex_agent 4, ex_agent 8, ex_agent 12]
           (ex_world (19 / 20) (ex_bufs 0 @ ex_bufs 1 @ ex_bufs 1 @ ex_bufs 0))
         = Inr (newcoefs, newintercepts, w'))
   \<and> de_crossover_classic (ex_agent 0) [ex_agent 4, ex_agent 8, ex_agent 12]
         (ex_world (19 / 20) (ex_bufs 0 @ ex_bufs 1 @ ex_bufs 1 @ ex_bufs 0))
       = Inr (coefs (ex_agent 0), intercepts (ex_agent 0),
              (ex_world (19 / 20)
                 ([[9 / 5, 0, 0, 0], [9 / 5, 0, 0, 0], [9 / 5, 0, 0, 0], [9 / 5]]
                  @ ex_bufs 1 @ ex_bufs 1 @ ex_bufs 0))
              \<lparr>np_pos := 17\<rparr>)"
proof -
  let ?W = "ex_world (19 / 20) (ex_bufs 0 @ ex_bufs 1 @ ex_bufs 1 @ ex_bufs 0)"
  have va: "valid_agent ?W (ex_agent 0)"
    and vr: "valid_agent ?W (ex_agent 4)" "valid_agent ?W (ex_agent 8)" "valid_agent ?W (ex_agent 12)"
    by (simp_all add: ex_defs wf_defs)
  have st: "same_topology (ex_agent 0) (ex_agent 4)" "same_topology (ex_agent 0) (ex_agent 8)"
    "same_topology (ex_agent 0) (ex_agent 12)"
    by (simp_all add: ex_defs wf_defs)
  have di: "distinct (bases (ex_agent 0))"
    by (simp add: ex_defs wf_defs)
  have dj: "set (bases (ex_agent 0)) \<inter> set (bases (ex_agent 4)) = {}"
    "set (bases (ex_agent 0)) \<inter> set (bases (ex_agent 8)) = {}"
    "set (bases (ex_agent 0)) \<inter> set (bases (ex_agent 12)) = {}"
    by (simp_all add: ex_defs wf_defs)
  have e: "\<exists>newcoefs newintercepts w'.
         de_crossover_classic (ex_agent 0) [ex_agent 4, ex_agent 8, ex_agent 12] ?W
         = Inr (newcoefs, newintercepts, w')"
    using de_crossover_classic_forced_index [OF va vr st di dj] by blast
  have R: "drawn_R ?W (coef_pos ?W (ex_agent 0) 0) (coefs (ex_agent 0) ! 0) = 0"
    by (simp add: ex_defs drawn_R_def coef_pos_def)
  have r: "de_crossover_classic (ex_agent 0) [ex_agent 4, ex_agent 8, ex_agent 12] ?W
       = Inr (coefs (ex_agent 0), intercepts (ex_agent 0),
              (ex_world (19 / 20)
                 ([[9 / 5, 0, 0, 0], [9 / 5, 0, 0, 0], [9 / 5, 0, 0, 0], [9 / 5]]
                  @ ex_bufs 1 @ ex_bufs 1 @ ex_bufs 0))
              \<lparr>np_pos := 17\<rparr>)"
    by (simp add: ex_defs cl_defs np_defs)
  show ?thesis using va di dj(1) st(1) R e r by blast
qed

text \<open>
  Claim C1 fails for \<open>de_crossover_classic\<close>. With a target whose arrays hold 0, donors
  holding 1, 1 and 0, and every uniform draw 0.5 (below \<open>CR\<close>), the call returns the
  target's own arrays, at the target's addresses 0 to 3, and the target's buffers hold
  1.8 afterwards: the child is written into the parent's memory through the view
  \<^verbatim>\<open>np.ravel(agent.coefs_[i])\<close>, and the arrays returned are views of the same memory.
\<close>

theorem de_crossover_classic_overwrites_target:
  "de_crossover_classic (ex_agent 0) [ex_agent 4, ex_agent 8, ex_agent 12]
     (ex_world (1 / 2) (ex_bufs 0 @ ex_bufs 1 @ ex_bufs 1 @ ex_bufs 0))
   = Inr (coefs (ex_agent 0), intercepts (ex_agent 0),
          (ex_world (1 / 2) (ex_bufs (9 / 5) @ ex_bufs 1 @ ex_bufs 1 @ ex_bufs 0))
          \<lparr>np_pos := 17\<rparr>)"
  by (simp add: ex_defs cl_defs np_defs)

subsection \<open>Claims about mutationFunc\_W\_B\<close>

lemmas mu_defs = mutationFunc_W_B_def mutate_array_def mutate_row_def perturb_row_def
  perturb_scalar_def swap_row_def read_row_def write_row_def upt_rec Let_def

lemma fold_heap_inv: "(\<And>x w. heap (f x w) = heap w) \<Longrightarrow> heap (fold f xs w) = heap w"
  by (induction xs arbitrary: w) simp_all

text \<open>
  With the methods \<^verbatim>\<open>'gaussian'\<close> and \<^verbatim>\<open>'uniform'\<close> (and with any method name the
  function does not know) the call changes no array, whatever the rate and the draws:
  the noise is drawn, added to a local variable, and dropped.
\<close>

lemma perturb_scalar_heap: "heap (snd (perturb_scalar method v w)) = heap w"
  by (simp add: perturb_scalar_def np_random_normal_def random_random_def)

lemma perturb_row_heap: "heap (perturb_row method el k w) = heap w"
  by (cases "shape el") (simp_all add: perturb_row_def perturb_scalar_heap fold_heap_inv)

lemma mutate_row_perturb_heap:
  "\<lbrakk>method \<noteq> ''swap''; method \<noteq> ''scramble''; method \<noteq> ''inverse''\<rbrakk>
   \<Longrightarrow> heap (mutate_row rate method el k w) = heap w"
  by (simp add: mutate_row_def random_random_def Let_def perturb_row_heap)

lemma mutationFunc_W_B_perturb_heap:
  "\<lbrakk>method \<noteq> ''swap''; method \<noteq> ''scramble''; method \<noteq> ''inverse''\<rbrakk>
   \<Longrightarrow> mutationFunc_W_B agent rate method w = (agent', w') \<Longrightarrow> agent' = agent \<and> heap w' = heap w"
  by (auto simp: mutationFunc_W_B_def mutate_array_def fold_heap_inv mutate_row_perturb_heap)

text \<open>
  Claim C2 fails on the code. With rate 1 every row passes the coin flip (every
  \<^verbatim>\<open>random.random()\<close> is 0.75), and every normal draw is 1, not 0: the call makes its 13
  normal draws, one for each scalar of the agent, and returns with every array as it
  was.
\<close>

theorem mutationFunc_W_B_gaussian_no_effect:
  "mutationFunc_W_B (ex_agent 0) 1 ''gaussian'' (ex_world (1 / 2) ex_count)
   = (ex_agent 0, (ex_world (1 / 2) ex_count)\<lparr>py_pos := 30, np_pos := 13\<rparr>)"
  by (simp add: ex_defs mu_defs np_defs)

text \<open>
  Claim C4 fails on the code. With rate 1 and every \<^verbatim>\<open>random.random()\<close> at 0.75, both
  positions drawn in an array of four elements are 3, and each iteration copies the
  loop's element onto element 3: the biases 9, 10, 11, 12 become 9, 10, 11, 11 and the
  weights 5, 6, 7, 8 become 5, 6, 7, 7. Nothing is exchanged, and the values 8 and 12
  are lost: the multiset of the agent's values changes.
\<close>

theorem mutationFunc_W_B_swap_overwrites:
  "mutationFunc_W_B (ex_agent 0) 1 ''swap'' (ex_world (1 / 2) ex_count)
   = (ex_agent 0,
      (ex_world (1 / 2) [[1, 2, 3, 4], [5, 6, 7, 7], [9, 10, 11, 11], [13]])\<lparr>py_pos := 30\<rparr>)
   \<and> count (mset (concat ex_count)) 8 = 1
   \<and> count (mset (concat (heap (snd (mutationFunc_W_B (ex_agent 0) 1 ''swap''
                                        (ex_world (1 / 2) ex_count)))))) 8 = 0"
  by (simp add: ex_defs mu_defs np_defs)

subsection \<open>Claims about average\_weight\_and\_bias\<close>

lemma collect_nth:
  "\<forall>el\<in>set mat. i < length (attr el) \<Longrightarrow>
   for_err mat (\<lambda>el acc. bnd (nth_err (attr el) i) (\<lambda>x. Inr (acc @ [x]))) acc0
     = Inr (acc0 @ map (\<lambda>el. attr el ! i) mat)"
  by (induction mat arbitrary: acc0) (simp_all add: nth_err_def)

lemma mean_case:
  "\<lbrakk>xs = x # r; list_all (\<lambda>y. shape y = shape x) xs\<rbrakk> \<Longrightarrow>
   (case xs of [] \<Rightarrow> Inl NanResult
    | x # xa \<Rightarrow>
        if list_all (\<lambda>y. shape y = shape x) xs
        then (let m = map (\<lambda>j. sum_list (map (\<lambda>y. ravel w y ! j) xs) / real (length xs))
                       [0..<size_of (shape x)];
                  (a, w1) = alloc m w
              in Inr (\<lparr>base = a, shape = shape x\<rparr>, w1))
        else Inl ValueError)
   = Inr (\<lparr>base = length (heap w), shape = shape x\<rparr>, w\<lparr>heap := heap w @ [mean_buf w xs]\<rparr>)"
  by (simp add: alloc_def mean_buf_def)

lemma find_mean_result:
  assumes ne: "mat \<noteq> []"
    and ix: "\<forall>el\<in>set mat. i < length (attr el)"
    and sh: "\<forall>el\<in>set mat. shape (attr el ! i) = shape (attr (hd mat) ! i)"
  shows "find_mean mat attr i w =
           Inr (\<lparr>base = length (heap w), shape = shape (attr (hd mat) ! i)\<rparr>,
                w\<lparr>heap := heap w @ [mean_buf w (map (\<lambda>el. attr el ! i) mat)]\<rparr>)"
proof -
  obtain a rest where m: "mat = a # rest" using ne by (cases mat) auto
  let ?xs = "map (\<lambda>el. attr el ! i) mat"
  have c: "for_err mat (\<lambda>el acc. bnd (nth_err (attr el) i) (\<lambda>x. Inr (acc @ [x]))) [] = Inr ?xs"
    using collect_nth [OF ix, of "[]"] by simp
  have xs: "?xs = (attr (hd mat) ! i) # map (\<lambda>el. attr el ! i) rest" by (simp add: m)
  have la: "list_all (\<lambda>y. shape y = shape (attr (hd mat) ! i)) ?xs"
    using sh by (simp add: list_all_iff)
  show ?thesis
    unfolding find_mean_def c bnd_simps by (rule mean_case [OF xs la])
qed

lemma mean_buf_ext:
  "\<lbrakk>\<forall>y\<in>set xs. valid_nd w y; heap w' = heap w @ new\<rbrakk> \<Longrightarrow> mean_buf w' xs = mean_buf w xs"
proof -
  assume v: "\<forall>y\<in>set xs. valid_nd w y" and h: "heap w' = heap w @ new"
  have eq: "map (\<lambda>y. ravel w' y ! j) xs = map (\<lambda>y. ravel w y ! j) xs" for j
    using v ravel_ext [OF _ h] by (intro map_cong) auto
  have s: "sum_list (map (\<lambda>y. ravel w' y ! j) xs) = sum_list (map (\<lambda>y. ravel w y ! j) xs)" for j
    using eq [of j] by (rule arg_cong)
  show ?thesis unfolding mean_buf_def s by (rule refl)
qed

lemma mean_buf_nth:
  "j < size_of (shape (attr (hd mat) ! i)) \<Longrightarrow> mat \<noteq> [] \<Longrightarrow>
   mean_buf w (map (\<lambda>el. attr el ! i) mat) ! j
     = (\<Sum>el\<leftarrow>mat. ravel w (attr el ! i) ! j) / real (length mat)"
  by (simp add: mean_buf_def hd_map o_def)

lemma mean_buf_single: "valid_nd w x \<Longrightarrow> mean_buf w [x] = ravel w x"
  by (rule nth_equalityI) (simp_all add: mean_buf_def valid_nd_def ravel_def)

lemma population_arrays:
  assumes va: "list_all (valid_agent w) population"
    and st: "list_all (same_topology (hd population)) population"
    and i: "i < 2"
  shows "\<forall>el\<in>set population. i < length (coefs el)"
    and "\<forall>el\<in>set population. i < length (intercepts el)"
    and "\<forall>el\<in>set population. shape (coefs el ! i) = shape (coefs (hd population) ! i)"
    and "\<forall>el\<in>set population. shape (intercepts el ! i) = shape (intercepts (hd population) ! i)"
    and "\<forall>y\<in>set (map (\<lambda>el. coefs el ! i) population). valid_nd w y"
    and "\<forall>y\<in>set (map (\<lambda>el. intercepts el ! i) population). valid_nd w y"
proof -
  have v: "valid_agent w el" if "el \<in> set population" for el
    using va that by (simp add: list_all_iff)
  have h: "valid_agent w (hd population)" if "el \<in> set population" for el
    using that v [of "hd population"] by (cases population) auto
  have t: "same_topology (hd population) el" if "el \<in> set population" for el
    using st that by (simp add: list_all_iff)
  show "\<forall>el\<in>set population. i < length (coefs el)"
    and "\<forall>el\<in>set population. i < length (intercepts el)"
    using v i by (auto simp: valid_agent_def)
  show "\<forall>el\<in>set population. shape (coefs el ! i) = shape (coefs (hd population) ! i)"
    and "\<forall>el\<in>set population. shape (intercepts el ! i) = shape (intercepts (hd population) ! i)"
    using same_topology_nth [OF t h v i] by blast+
  show "\<forall>y\<in>set (map (\<lambda>el. coefs el ! i) population). valid_nd w y"
    and "\<forall>y\<in>set (map (\<lambda>el. intercepts el ! i) population). valid_nd w y"
    using valid_agent_nth [OF v i] by auto
qed

text \<open>
  The result of \<open>average_weight_and_bias\<close> on a population that is not empty, of agents
  of one topology: four new buffers with the means, then the new network from
  \<open>create_new_network\<close>, whose arrays are replaced by arrays on the four buffers.
\<close>

lemma average_weight_and_bias_result:
  assumes ne: "population \<noteq> []"
    and va: "list_all (valid_agent w) population"
    and st: "list_all (same_topology (hd population)) population"
  shows "average_weight_and_bias fit population env w =
     Inr ((fst (fit env (w\<lparr>heap := heap w @
              [mean_buf w (map (\<lambda>el. coefs el ! 0) population),
               mean_buf w (map (\<lambda>el. coefs el ! 1) population),
               mean_buf w (map (\<lambda>el. intercepts el ! 0) population),
               mean_buf w (map (\<lambda>el. intercepts el ! 1) population)]\<rparr>)))
          \<lparr>coefs := [\<lparr>base = length (heap w), shape = shape (coefs (hd population) ! 0)\<rparr>,
                    \<lparr>base = length (heap w) + 1, shape = shape (coefs (hd population) ! 1)\<rparr>],
           intercepts := [\<lparr>base = length (heap w) + 2, shape = shape (intercepts (hd population) ! 0)\<rparr>,
                         \<lparr>base = length (heap w) + 3, shape = shape (intercepts (hd population) ! 1)\<rparr>]\<rparr>,
          snd (fit env (w\<lparr>heap := heap w @
              [mean_buf w (map (\<lambda>el. coefs el ! 0) population),
               mean_buf w (map (\<lambda>el. coefs el ! 1) population),
               mean_buf w (map (\<lambda>el. intercepts el ! 0) population),
               mean_buf w (map (\<lambda>el. intercepts el ! 1) population)]\<rparr>)))"
proof -
  have i0: "(0::nat) < 2" and i1: "(1::nat) < 2" by simp_all
  note a0 = population_arrays [OF va st i0]
  note a1 = population_arrays [OF va st i1]
  let ?M0 = "mean_buf w (map (\<lambda>el. coefs el ! 0) population)"
  let ?M1 = "mean_buf w (map (\<lambda>el. coefs el ! 1) population)"
  let ?M2 = "mean_buf w (map (\<lambda>el. intercepts el ! 0) population)"
  let ?M3 = "mean_buf w (map (\<lambda>el. intercepts el ! 1) population)"
  let ?w1 = "w\<lparr>heap := heap w @ [?M0]\<rparr>"
  let ?w2 = "w\<lparr>heap := heap w @ [?M0, ?M1]\<rparr>"
  let ?w3 = "w\<lparr>heap := heap w @ [?M0, ?M1, ?M2]\<rparr>"
  have f0: "find_mean population coefs 0 w =
      Inr (\<lparr>base = length (heap w), shape = shape (coefs (hd population) ! 0)\<rparr>, ?w1)"
    using find_mean_result [OF ne a0(1) a0(3), of w] by simp
  have m1: "mean_buf ?w1 (map (\<lambda>el. coefs el ! 1) population) = ?M1"
    by (rule mean_buf_ext [where new = "[?M0]", OF a1(5)]) simp
  have f1: "find_mean population coefs 1 ?w1 =
      Inr (\<lparr>base = length (heap w) + 1, shape = shape (coefs (hd population) ! 1)\<rparr>, ?w2)"
    using find_mean_result [OF ne a1(1) a1(3), of ?w1] by (simp add: m1 del: One_nat_def)
  have m2: "mean_buf ?w2 (map (\<lambda>el. intercepts el ! 0) population) = ?M2"
    by (rule mean_buf_ext [where new = "[?M0, ?M1]", OF a0(6)]) simp
  have f2: "find_mean population intercepts 0 ?w2 =
      Inr (\<lparr>base = length (heap w) + 2, shape = shape (intercepts (hd population) ! 0)\<rparr>, ?w3)"
    using find_mean_result [OF ne a0(2) a0(4), of ?w2] by (simp add: m2 del: One_nat_def)
  have m3: "mean_buf ?w3 (map (\<lambda>el. intercepts el ! 1) population) = ?M3"
    by (rule mean_buf_ext [where new = "[?M0, ?M1, ?M2]", OF a1(6)]) simp
  have f3: "find_mean population intercepts 1 ?w3 =
      Inr (\<lparr>base = length (heap w) + 3, shape = shape (intercepts (hd population) ! 1)\<rparr>,
           w\<lparr>heap := heap w @ [?M0, ?M1, ?M2, ?M3]\<rparr>)"
    using find_mean_result [OF ne a1(2) a1(4), of ?w3] by (simp add: m3 del: One_nat_def)
  show ?thesis
    unfolding average_weight_and_bias_def
    by (simp add: f0 f1 f2 f3 create_new_network_def case_prod_unfold Let_def del: One_nat_def)
qed

text \<open>
  Claim C7: for every population that is not empty, of agents of one topology,
  \<open>average_weight_and_bias\<close> returns a network whose arrays have the agents' shapes and
  in which every weight and every bias is the arithmetic mean of that entry over the
  population: the sum of the agents' entries divided by their number. For a population
  of one agent the arrays hold that agent's values, and for a population of two the
  entries are \<open>(a + b) / 2\<close>. The library call that creates the network is assumed to
  allocate only, that is, to leave the buffers in use as they are. (The floats are real
  numbers here.)
\<close>

theorem average_weight_and_bias_mean:
  "\<lbrakk>population \<noteq> []; list_all (valid_agent w) population;
    list_all (same_topology (hd population)) population;
    \<forall>w0. \<exists>new. heap (snd (fit env w0)) = heap w0 @ new\<rbrakk> \<Longrightarrow>
   \<exists>avg w'.
     average_weight_and_bias fit population env w = Inr (avg, w')
     \<and> map shape (coefs avg) = map shape (coefs (hd population))
     \<and> map shape (intercepts avg) = map shape (intercepts (hd population))
     \<and> (\<forall>i<2. \<forall>j<size_of (shape (coefs (hd population) ! i)).
           ravel w' (coefs avg ! i) ! j
             = (\<Sum>a\<leftarrow>population. ravel w (coefs a ! i) ! j) / real (length population))
     \<and> (\<forall>i<2. \<forall>j<size_of (shape (intercepts (hd population) ! i)).
           ravel w' (intercepts avg ! i) ! j
             = (\<Sum>a\<leftarrow>population. ravel w (intercepts a ! i) ! j) / real (length population))
     \<and> (\<forall>A. population = [A] \<longrightarrow>
           (\<forall>i<2. ravel w' (coefs avg ! i) = ravel w (coefs A ! i)
                 \<and> ravel w' (intercepts avg ! i) = ravel w (intercepts A ! i)))
     \<and> (\<forall>A B. population = [A, B] \<longrightarrow>
           (\<forall>i<2.
              (\<forall>j<size_of (shape (coefs A ! i)).
                 ravel w' (coefs avg ! i) ! j
                   = (ravel w (coefs A ! i) ! j + ravel w (coefs B ! i) ! j) / 2)
              \<and> (\<forall>j<size_of (shape (intercepts A ! i)).
                 ravel w' (intercepts avg ! i) ! j
                   = (ravel w (intercepts A ! i) ! j + ravel w (intercepts B ! i) ! j) / 2)))"
proof -
  assume ne: "population \<noteq> []" and va: "list_all (valid_agent w) population"
    and st: "list_all (same_topology (hd population)) population"
    and fr: "\<forall>w0. \<exists>new. heap (snd (fit env w0)) = heap w0 @ new"
  let ?h = "hd population" and ?L = "length (heap w)"
  let ?M0 = "mean_buf w (map (\<lambda>el. coefs el ! 0) population)"
  let ?M1 = "mean_buf w (map (\<lambda>el. coefs el ! 1) population)"
  let ?M2 = "mean_buf w (map (\<lambda>el. intercepts el ! 0) population)"
  let ?M3 = "mean_buf w (map (\<lambda>el. intercepts el ! 1) population)"
  let ?w4 = "w\<lparr>heap := heap w @ [?M0, ?M1, ?M2, ?M3]\<rparr>"
  let ?cs = "[\<lparr>base = ?L, shape = shape (coefs ?h ! 0)\<rparr>,
              \<lparr>base = ?L + 1, shape = shape (coefs ?h ! 1)\<rparr>]"
  let ?bs = "[\<lparr>base = ?L + 2, shape = shape (intercepts ?h ! 0)\<rparr>,
              \<lparr>base = ?L + 3, shape = shape (intercepts ?h ! 1)\<rparr>]"
  define avg where "avg = (fst (fit env ?w4))\<lparr>coefs := ?cs, intercepts := ?bs\<rparr>"
  define w' where "w' = snd (fit env ?w4)"
  have r: "average_weight_and_bias fit population env w = Inr (avg, w')"
    unfolding avg_def w'_def by (rule average_weight_and_bias_result [OF ne va st])
  obtain new where "heap w' = heap ?w4 @ new"
    using fr unfolding w'_def by blast
  then have hw: "heap w' = heap w @ [?M0, ?M1, ?M2, ?M3] @ new" by simp
  have ca: "coefs avg = ?cs" and ia: "intercepts avg = ?bs" by (simp_all add: avg_def)
  have vh: "valid_agent w ?h" using va ne by (cases population) simp_all
  have c2: "coefs ?h = [coefs ?h ! 0, coefs ?h ! 1]"
    and i2: "intercepts ?h = [intercepts ?h ! 0, intercepts ?h ! 1]"
    using vh list2_nth [of "coefs ?h"] list2_nth [of "intercepts ?h"]
    by (simp_all add: valid_agent_def)
  have s1: "map shape (coefs avg) = map shape (coefs ?h)"
    unfolding ca by (subst (3) c2) simp
  have s2: "map shape (intercepts avg) = map shape (intercepts ?h)"
    unfolding ia by (subst (3) i2) simp
  have rv: "ravel w' (coefs avg ! 0) = ?M0" "ravel w' (coefs avg ! 1) = ?M1"
    "ravel w' (intercepts avg ! 0) = ?M2" "ravel w' (intercepts avg ! 1) = ?M3"
    by (simp_all add: ravel_def hw ca ia nth_append)
  have cf: "\<forall>i<2. \<forall>j<size_of (shape (coefs ?h ! i)).
           ravel w' (coefs avg ! i) ! j
             = (\<Sum>a\<leftarrow>population. ravel w (coefs a ! i) ! j) / real (length population)"
    unfolding all_less_2 rv using ne by (simp add: mean_buf_nth del: One_nat_def)
  have ic: "\<forall>i<2. \<forall>j<size_of (shape (intercepts ?h ! i)).
           ravel w' (intercepts avg ! i) ! j
             = (\<Sum>a\<leftarrow>population. ravel w (intercepts a ! i) ! j) / real (length population)"
    unfolding all_less_2 rv using ne by (simp add: mean_buf_nth del: One_nat_def)
  have one: "\<forall>A. population = [A] \<longrightarrow>
           (\<forall>i<2. ravel w' (coefs avg ! i) = ravel w (coefs A ! i)
                 \<and> ravel w' (intercepts avg ! i) = ravel w (intercepts A ! i))"
  proof (rule allI, rule impI)
    fix A assume p: "population = [A]"
    have vA: "valid_agent w A" using va p by simp
    have vn: "valid_nd w (coefs A ! 0)" "valid_nd w (coefs A ! 1)"
      "valid_nd w (intercepts A ! 0)" "valid_nd w (intercepts A ! 1)"
      using valid_agent_nth [OF vA, of 0] valid_agent_nth [OF vA, of 1] by simp_all
    show "\<forall>i<2. ravel w' (coefs avg ! i) = ravel w (coefs A ! i)
                 \<and> ravel w' (intercepts avg ! i) = ravel w (intercepts A ! i)"
      unfolding all_less_2 rv by (simp add: p mean_buf_single vn del: One_nat_def)
  qed
  have two: "\<forall>A B. population = [A, B] \<longrightarrow>
           (\<forall>i<2.
              (\<forall>j<size_of (shape (coefs A ! i)).
                 ravel w' (coefs avg ! i) ! j
                   = (ravel w (coefs A ! i) ! j + ravel w (coefs B ! i) ! j) / 2)
              \<and> (\<forall>j<size_of (shape (intercepts A ! i)).
                 ravel w' (intercepts avg ! i) ! j
                   = (ravel w (intercepts A ! i) ! j + ravel w (intercepts B ! i) ! j) / 2))"
  proof (rule allI, rule allI, rule impI)
    fix A B assume p: "population = [A, B]"
    show "\<forall>i<2.
              (\<forall>j<size_of (shape (coefs A ! i)).
                 ravel w' (coefs avg ! i) ! j
                   = (ravel w (coefs A ! i) ! j + ravel w (coefs B ! i) ! j) / 2)
              \<and> (\<forall>j<size_of (shape (intercepts A ! i)).
                 ravel w' (intercepts avg ! i) ! j
                   = (ravel w (intercepts A ! i) ! j + ravel w (intercepts B ! i) ! j) / 2)"
      using cf ic by (simp add: p)
  qed
  show ?thesis
    using r s1 s2 cf ic one two by blast
qed

lemmas av_defs = average_weight_and_bias_def find_mean_def create_new_network_def ex_fit_def
  alloc_def ravel_def nth_err_def Let_def

theorem average_weight_and_bias_mean_witness:
  "[ex_agent 0, ex_agent 4] \<noteq> []
   \<and> list_all (valid_agent (ex_world (1 / 2) (ex_count @ ex_bufs 0))) [ex_agent 0, ex_agent 4]
   \<and> list_all (same_topology (hd [ex_agent 0, ex_agent 4])) [ex_agent 0, ex_agent 4]
   \<and> (\<forall>w0. \<exists>new. heap (snd (ex_fit () w0)) = heap w0 @ new)
   \<and> (\<exists>avg w'. average_weight_and_bias ex_fit [ex_agent 0, ex_agent 4] ()
                    (ex_world (1 / 2) (ex_count @ ex_bufs 0)) = Inr (avg, w'))
   \<and> average_weight_and_bias ex_fit [ex_agent 0, ex_agent 4] ()
         (ex_world (1 / 2) (ex_count @ ex_bufs 0))
       = Inr (\<lparr>coefs = [\<lparr>base = 8, shape = Shape2 1 4\<rparr>, \<lparr>base = 9, shape = Shape2 4 1\<rparr>],
               intercepts = [\<lparr>base = 10, shape = Shape1 4\<rparr>, \<lparr>base = 11, shape = Shape1 1\<rparr>]\<rparr>,
              ex_world (1 / 2)
                (ex_count @ ex_bufs 0
                 @ [[1 / 2, 1, 3 / 2, 2], [5 / 2, 3, 7 / 2, 4], [9 / 2, 5, 11 / 2, 6], [13 / 2]]
                 @ ex_bufs 0))
   \<and> average_weight_and_bias ex_fit [ex_agent 0] () (ex_world (1 / 2) ex_count)
       = Inr (\<lparr>coefs = [\<lparr>base = 4, shape = Shape2 1 4\<rparr>, \<lparr>base = 5, shape = Shape2 4 1\<rparr>],
               intercepts = [\<lparr>base = 6, shape = Shape1 4\<rparr>, \<lparr>base = 7, shape = Shape1 1\<rparr>]\<rparr>,
              ex_world (1 / 2) (ex_count @ ex_count @ ex_bufs 0))"
proof -
  let ?W = "ex_world (1 / 2) (ex_count @ ex_bufs 0)"
  have ne: "[ex_agent 0, ex_agent 4] \<noteq> []" by simp
  have va: "list_all (valid_agent ?W) [ex_agent 0, ex_agent 4]"
    by (simp add: ex_defs wf_defs)
  have st: "list_all (same_topology (hd [ex_agent 0, ex_agent 4])) [ex_agent 0, ex_agent 4]"
    by (simp add: ex_defs wf_defs)
  have fr: "\<forall>w0. \<exists>new. heap (snd (ex_fit () w0)) = heap w0 @ new"
    by (simp add: ex_fit_def)
  have e: "\<exists>avg w'. average_weight_and_bias ex_fit [ex_agent 0, ex_agent 4] () ?W = Inr (avg, w')"
    using average_weight_and_bias_mean [where fit = ex_fit and env = "()", OF ne va st fr]
    by blast
  have r2: "average_weight_and_bias ex_fit [ex_agent 0, ex_agent 4] () ?W
       = Inr (\<lparr>coefs = [\<lparr>base = 8, shape = Shape2 1 4\<rparr>, \<lparr>base = 9, shape = Shape2 4 1\<rparr>],
               intercepts = [\<lparr>base = 10, shape = Shape1 4\<rparr>, \<lparr>base = 11, shape = Shape1 1\<rparr>]\<rparr>,
              ex_world (1 / 2)
                (ex_count @ ex_bufs 0
                 @ [[1 / 2, 1, 3 / 2, 2], [5 / 2, 3, 7 / 2, 4], [9 / 2, 5, 11 / 2, 6], [13 / 2]]
                 @ ex_bufs 0))"
    by (simp add: ex_defs av_defs upt_rec)
  have r1: "average_weight_and_bias ex_fit [ex_agent 0] () (ex_world (1 / 2) ex_count)
       = Inr (\<lparr>coefs = [\<lparr>base = 4, shape = Shape2 1 4\<rparr>, \<lparr>base = 5, shape = Shape2 4 1\<rparr>],
               intercepts = [\<lparr>base = 6, shape = Shape1 4\<rparr>, \<lparr>base = 7, shape = Shape1 1\<rparr>]\<rparr>,
              ex_world (1 / 2) (ex_count @ ex_count @ ex_bufs 0))"
    by (simp add: ex_defs av_defs upt_rec)
  show ?thesis using ne va st fr e r2 r1 by blast
qed

subsection \<open>Further properties\<close>

text \<open>
  The loop of \<open>simulate_agent\<close> returns only after a step that reports \<^verbatim>\<open>done\<close>:
  against an environment that never does, the call does not return.
\<close>

lemma simulate_loop_returns_only_when_done:
  fixes predict :: "'o \<Rightarrow> int" and env :: "('s, 'o, 'f) environment"
  assumes ret: "simulate_loop predict env sv obs score d frames s = Some r"
  shows "d \<or> (\<exists>n. done_at predict env obs s n)"
proof (rule simulate_loop.raw_induct
    [where P = "\<lambda>predict env sv obs score d frames s r. d \<or> (\<exists>n. done_at predict env obs s n)",
      OF _ ret])
  fix f :: "('o \<Rightarrow> int) \<Rightarrow> ('s, 'o, 'f) environment \<Rightarrow> bool \<Rightarrow> 'o \<Rightarrow> real \<Rightarrow> bool \<Rightarrow> 'f list \<Rightarrow> 's
              \<Rightarrow> (real \<times> 'f list \<times> 's) option"
  fix predict :: "'o \<Rightarrow> int" and env :: "('s, 'o, 'f) environment"
    and sv obs score d frames s r
  assume IH: "\<And>(predict :: 'o \<Rightarrow> int) (env :: ('s, 'o, 'f) environment) sv obs score d frames s r.
      f predict env sv obs score d frames s = Some r \<Longrightarrow> d \<or> (\<exists>n. done_at predict env obs s n)"
  assume body: "(if d then Some (score, frames, s)
      else let action = predict obs;
               ((observation', reward, done'), s') = env_step env action s;
               score' = score + reward;
               frames' = if sv then frames @ [env_render env s'] else frames
           in f predict env sv observation' score' done' frames' s') = Some r"
  show "d \<or> (\<exists>n. done_at predict env obs s n)"
  proof (cases d)
    case True
    then show ?thesis by simp
  next
    case False
    obtain obs' rw d' s' where st: "env_step env (predict obs) s = ((obs', rw, d'), s')"
      by (metis prod_cases3 surj_pair)
    from body False st
    have "f predict env sv obs' (score + rw) d'
            (if sv then frames @ [env_render env s'] else frames) s' = Some r"
      by (simp add: Let_def)
    from IH [OF this] have "d' \<or> (\<exists>n. done_at predict env obs' s' n)" .
    then show ?thesis
    proof
      assume d'
      then have "done_at predict env obs s 0" using st by (simp add: done_at_def)
      then show ?thesis by blast
    next
      assume "\<exists>n. done_at predict env obs' s' n"
      then obtain n where "done_at predict env obs' s' n" ..
      then have "done_at predict env obs s (Suc n)" using st by (simp add: done_at_def)
      then show ?thesis by blast
    qed
  qed
qed

lemma simulate_agent_never_done:
  "\<lbrakk>env_reset env s = (observation, s0); \<forall>k. \<not> done_at predict env observation s0 k\<rbrakk>
   \<Longrightarrow> simulate_agent predict env savetofile s = None"
  unfolding simulate_agent_def
  using simulate_loop_returns_only_when_done [of predict env savetofile observation 0 False "[]" s0]
  by (cases "simulate_loop predict env savetofile observation 0 False [] s0") auto

text \<open>
  The index \<open>R\<close> of \<open>de_crossover_classic\<close> is drawn between 0 and the length of the
  array's first axis, both included. For the bias vector of one element it can be 1,
  beyond the last index: with uniform draws of 0.95 no element of that array is
  assigned, while in the other arrays the element at index 1 is.
\<close>

lemma de_crossover_classic_R_beyond_length:
  "intercept_pos
     ((ex_world (19 / 20) (ex_bufs 0 @ ex_bufs 1 @ ex_bufs 1 @ ex_bufs 0))\<lparr>np_nat := (\<lambda>k. 1)\<rparr>)
     (ex_agent 0) 1 = 15
   \<and> drawn_R
       ((ex_world (19 / 20) (ex_bufs 0 @ ex_bufs 1 @ ex_bufs 1 @ ex_bufs 0))\<lparr>np_nat := (\<lambda>k. 1)\<rparr>)
       15 (intercepts (ex_agent 0) ! 1) = 1
   \<and> size_of (shape (intercepts (ex_agent 0) ! 1)) = 1
   \<and> de_crossover_classic (ex_agent 0) [ex_agent 4, ex_agent 8, ex_agent 12]
         ((ex_world (19 / 20) (ex_bufs 0 @ ex_bufs 1 @ ex_bufs 1 @ ex_bufs 0))\<lparr>np_nat := (\<lambda>k. 1)\<rparr>)
       = Inr (coefs (ex_agent 0), intercepts (ex_agent 0),
              (ex_world (19 / 20)
                 ([[0, 9 / 5, 0, 0], [0, 9 / 5, 0, 0], [0, 9 / 5, 0, 0], [0]]
                  @ ex_bufs 1 @ ex_bufs 1 @ ex_bufs 0))
              \<lparr>np_nat := (\<lambda>k. 1), np_pos := 17\<rparr>)"
  by (simp add: ex_defs cl_defs np_defs drawn_R_def intercept_pos_def coef_pos_def)

end
